theory Spec2Isabelle
  imports Complex_Main "HOL-Library.AList" "HOL-Library.Sublist"
begin

section \<open>Python values, errors and dictionaries\<close>

text \<open>
  The values a parameter dictionary of \<^verbatim>\<open>binary.py\<close> can hold: integers, booleans,
  \<^verbatim>\<open>None\<close>, strings, and the tuples that \<^verbatim>\<open>structure_params\<close> stores. All of them are
  immutable, so a shallow copy of a dictionary shares nothing that can change.
\<close>

datatype pyval = VInt int | VBool bool | VNone | VStr string | VTuple "pyval list"

text \<open>
  The two exceptions the function can raise: \<^verbatim>\<open>dict.pop\<close> of an absent key
  (\<^verbatim>\<open>KeyError\<close>, carrying the key) and a slice bound that is neither an integer nor
  \<^verbatim>\<open>None\<close> (\<^verbatim>\<open>TypeError\<close>).
\<close>

datatype error = KeyError string | TypeError

text \<open>
  A Python \<^verbatim>\<open>dict\<close> with string keys keeps its entries in insertion order and holds every
  key once: an association list whose keys are distinct.
\<close>

type_synonym dict = "(string \<times> pyval) list"

definition wf_dict :: "dict \<Rightarrow> bool" where
  "wf_dict d = distinct (map fst d)"

text \<open>
  The statements of a method body that work on the one dictionary a local variable refers
  to: each takes that dictionary and returns its result, or the exception raised, together
  with the dictionary as it has been mutated so far.
\<close>

type_synonym 'a action = "dict \<Rightarrow> (error + 'a) \<times> dict"

definition return :: "'a \<Rightarrow> 'a action" where
  "return x d = (Inr x, d)"

definition bind :: "'a action \<Rightarrow> ('a \<Rightarrow> 'b action) \<Rightarrow> 'b action" where
  "bind m f d = (case m d of (Inl e, d') \<Rightarrow> (Inl e, d') | (Inr x, d') \<Rightarrow> f x d')"

definition lift :: "error + 'a \<Rightarrow> 'a action" where
  "lift r d = (r, d)"

text \<open>\<^verbatim>\<open>params.pop(k)\<close>: removes the entry and returns its value; \<^verbatim>\<open>KeyError\<close> when absent.\<close>

definition pop :: "string \<Rightarrow> pyval action" where
  "pop k d = (case map_of d k of
                None \<Rightarrow> (Inl (KeyError k), d)
              | Some v \<Rightarrow> (Inr v, AList.delete k d))"

text \<open>\<^verbatim>\<open>params[k] = v\<close>: replaces the value in place, or appends a new entry.\<close>

definition setitem :: "string \<Rightarrow> pyval \<Rightarrow> unit action" where
  "setitem k v d = (Inr (), AList.update k v d)"

text \<open>\<^verbatim>\<open>list(params.keys())\<close>: a snapshot of the keys, in order.\<close>

definition keys :: "string list action" where
  "keys d = (Inr (map fst d), d)"

text \<open>\<^verbatim>\<open>k.startswith(p)\<close>.\<close>

definition startswith :: "string \<Rightarrow> string \<Rightarrow> bool" where
  "startswith k p = prefix p k"

text \<open>A \<^verbatim>\<open>for\<close> loop over a list, stopping at the first exception.\<close>

fun for_each :: "'a list \<Rightarrow> ('a \<Rightarrow> unit action) \<Rightarrow> unit action" where
  "for_each [] body = return ()"
| "for_each (x # xs) body = bind (body x) (\<lambda>_. for_each xs body)"

text \<open>
  \<^verbatim>\<open>tuple(params.pop(i) for i in names)\<close>: the generator pops the names from left to
  right and the first absent one raises.
\<close>

fun pop_each :: "string list \<Rightarrow> pyval list action" where
  "pop_each [] = return []"
| "pop_each (i # names) = bind (pop i) (\<lambda>v. bind (pop_each names) (\<lambda>vs. return (v # vs)))"

text \<open>
  \<^verbatim>\<open>t[:stop]\<close> on a tuple. A non-negative integer keeps that many leading elements (all
  of them when there are fewer), a negative one drops that many trailing elements,
  \<^verbatim>\<open>None\<close> keeps everything, a boolean counts as 0 or 1, and anything else raises
  \<^verbatim>\<open>TypeError\<close>.
\<close>

fun slice_to :: "pyval list \<Rightarrow> pyval \<Rightarrow> error + pyval" where
  "slice_to t (VInt n) =
     Inr (VTuple (if n < 0 then take (nat (int (length t) + n)) t else take (nat n) t))"
| "slice_to t (VBool b) = Inr (VTuple (take (if b then 1 else 0) t))"
| "slice_to t VNone = Inr (VTuple t)"
| "slice_to t (VStr s) = Inl TypeError"
| "slice_to t (VTuple vs) = Inl TypeError"

section \<open>\<^verbatim>\<open>BinaryOpFuzzer.structure_params\<close>\<close>

text \<open>
  One of the four assignments of lines 133 to 136,
  \<^verbatim>\<open>params[key] = tuple(params.pop(i) for i in names)[:dim]\<close>
  (the bound is called \<open>stop\<close> here, \<open>dim\<close> being a constant of the library):
  the right-hand side is evaluated first (all pops, then the slice), then the item is set.
\<close>

definition assign_sliced :: "string \<Rightarrow> string list \<Rightarrow> pyval \<Rightarrow> unit action" where
  "assign_sliced key names stop =
     bind (pop_each names) (\<lambda>t.
     bind (lift (slice_to t stop)) (\<lambda>v.
     setitem key v))"

text \<open>The body of the loop of lines 129 to 131.\<close>

definition drop_intermediate :: "string \<Rightarrow> unit action" where
  "drop_intermediate k =
     (if startswith k ''k_any'' \<or> startswith k ''k_pow2''
      then bind (pop k) (\<lambda>_. return ())
      else return ())"

text \<open>Lines 128 to 136, acting on the dictionary that \<^verbatim>\<open>params\<close> refers to after the copy.\<close>

definition structure_params_body :: "unit action" where
  "structure_params_body =
     bind (pop ''random_value'') (\<lambda>_.
     bind keys (\<lambda>ks.
     bind (for_each ks drop_intermediate) (\<lambda>_.
     bind (pop ''dim'') (\<lambda>dim.
     bind (assign_sliced ''x_size'' [''k0'', ''k1'', ''k2''] dim) (\<lambda>_.
     bind (assign_sliced ''x_steps'' [''x_step_0'', ''x_step_1'', ''x_step_2''] dim) (\<lambda>_.
     bind (assign_sliced ''y_size'' [''y_k0'', ''y_k1'', ''y_k2''] dim) (\<lambda>_.
     assign_sliced ''y_steps'' [''y_step_0'', ''y_step_1'', ''y_step_2''] dim)))))))"

text \<open>
  The function on values: \<^verbatim>\<open>params.copy()\<close> of line 127 gives a dictionary with the same
  entries, the body runs on it, and the mutated copy is returned (line 137). An exception
  leaves no dictionary behind.
\<close>

definition structure_params :: "dict \<Rightarrow> error + dict" where
  "structure_params params =
     (case structure_params_body params of
        (Inl e, _) \<Rightarrow> Inl e
      | (Inr _, out) \<Rightarrow> Inr out)"

subsection \<open>The same function on a store of dictionaries\<close>

text \<open>
  Python passes the dictionary by reference. The store holds every dictionary object at
  its address; the argument is an address that is in use. \<^verbatim>\<open>params.copy()\<close> allocates a
  new object with the same entries and rebinds the local name to it; every later
  statement mutates the object at that address.
\<close>

type_synonym addr = nat
type_synonym heap = "dict list"

definition dict_copy :: "addr \<Rightarrow> heap \<Rightarrow> addr \<times> heap" where
  "dict_copy a h = (length h, h @ [h ! a])"

definition at_addr :: "addr \<Rightarrow> 'a action \<Rightarrow> heap \<Rightarrow> (error + 'a) \<times> heap" where
  "at_addr r m h = (case m (h ! r) of (res, d') \<Rightarrow> (res, h[r := d']))"

definition structure_params_st :: "addr \<Rightarrow> heap \<Rightarrow> (error + addr) \<times> heap" where
  "structure_params_st a h =
     (case dict_copy a h of (params, h1) \<Rightarrow>
        (case at_addr params structure_params_body h1 of
           (Inl e, h2) \<Rightarrow> (Inl e, h2)
         | (Inr _, h2) \<Rightarrow> (Inr params, h2)))"

section \<open>The parameter space declared by \<^verbatim>\<open>BinaryOpFuzzer.__init__\<close>\<close>

text \<open>
  The constructor builds a list of \<^verbatim>\<open>FuzzedParameter\<close> declarations and two
  \<^verbatim>\<open>FuzzedTensor\<close> requests and hands them to the base class. The declarations are
  data: a record holds the arguments of each call, an optional keyword that the call does
  not pass is \<open>None\<close>. Python's float literals and the quotient \<^verbatim>\<open>1. / len(...)\<close> are
  read as the rational numbers they denote.
\<close>

datatype outcome = Value int | ParameterAlias string

datatype distribution = Named string | Weighted "(outcome \<times> rat) list"

record FuzzedParameter =
  name :: string
  minval :: "int option"
  maxval :: "int option"
  distribution :: distribution
  strict :: "bool option"

text \<open>The element types of torch; the file names only \<^verbatim>\<open>torch.float32\<close>, its default.\<close>

datatype dtype = float32 | float64 | int64

record FuzzedTensor =
  t_name :: string
  t_size :: "string list"
  t_steps :: "string list"
  probability_contiguous :: rat
  min_elements :: "int option"
  max_elements :: "int option"
  max_allocation_bytes :: "int option"
  dim_parameter :: string
  t_dtype :: dtype
  cuda :: bool
  requires_grad :: bool

text \<open>An element of the \<^verbatim>\<open>parameters\<close> list is one declaration or a list of them.\<close>

datatype entry = One FuzzedParameter | Many "FuzzedParameter list"

record Fuzzer =
  parameters :: "entry list"
  tensors :: "FuzzedTensor list"
  seed :: int

definition SMALL :: string where "SMALL = ''small''"
definition MEDIUM :: string where "MEDIUM = ''medium''"
definition LARGE :: string where "LARGE = ''large''"

definition MIN_DIM_SIZE :: int where
  "MIN_DIM_SIZE = 8"

definition MAX_DIM_SIZE :: "(string \<times> int) list" where
  "MAX_DIM_SIZE = [(SMALL, 128), (MEDIUM, 1024), (LARGE, 16 * 1024 ^ 2)]"

text \<open>
  \<^verbatim>\<open>int(np.log2(n))\<close>: the integer part of the binary logarithm. The file applies it to
  8, 128, 1024 and \<open>2^24\<close> only, powers of two, where the floating-point logarithm is exact.
\<close>

function int_log2 :: "int \<Rightarrow> nat" where
  "int_log2 n = (if n < 2 then 0 else Suc (int_log2 (n div 2)))"
  by pat_completeness auto
termination
  by (relation "measure nat") auto

declare int_log2.simps [simp del]

text \<open>\<^verbatim>\<open>range(a, b)\<close> for natural bounds.\<close>

definition range :: "nat \<Rightarrow> nat \<Rightarrow> nat list" where
  "range a b = [a..<b]"

definition POW_TWO_SIZES :: "(string \<times> int list) list" where
  "POW_TWO_SIZES =
     map (\<lambda>(scale, max_size).
            (scale, map (\<lambda>i. 2 ^ i) (range (int_log2 MIN_DIM_SIZE) (int_log2 max_size + 1))))
         MAX_DIM_SIZE"

definition MIN_ELEMENTS :: "(string \<times> int) list" where
  "MIN_ELEMENTS = [(SMALL, 0), (MEDIUM, 128), (LARGE, 4 * 1024)]"

text \<open>\<^verbatim>\<open>table[key]\<close> on a module-level dictionary: \<^verbatim>\<open>KeyError\<close> for an unknown key.\<close>

definition getitem :: "(string \<times> 'a) list \<Rightarrow> string \<Rightarrow> error + 'a" where
  "getitem d k = (case map_of d k of None \<Rightarrow> Inl (KeyError k) | Some v \<Rightarrow> Inr v)"

text \<open>\<^verbatim>\<open>str(i)\<close> of a natural number, as the f-strings format the axis index.\<close>

fun str :: "nat \<Rightarrow> string" where
  "str n = (if n < 10 then [''0123456789'' ! n]
            else str (n div 10) @ [''0123456789'' ! (n mod 10)])"

declare str.simps [simp del]

text \<open>Line 35.\<close>

definition dim_param :: FuzzedParameter where
  "dim_param =
     \<lparr>name = ''dim'', minval = None, maxval = None,
      distribution = Weighted [(Value 1, 0.3), (Value 2, 0.4), (Value 3, 0.3)],
      strict = Some True\<rparr>"

text \<open>Lines 47 to 54.\<close>

definition k_any_params :: "int \<Rightarrow> FuzzedParameter list" where
  "k_any_params max_dim_size =
     map (\<lambda>i. \<lparr>name = ''k_any_'' @ str i, minval = Some MIN_DIM_SIZE,
                maxval = Some max_dim_size, distribution = Named ''loguniform'',
                strict = None\<rparr>)
         (range 0 3)"

text \<open>Lines 55 to 60.\<close>

definition k_pow2_params :: "int list \<Rightarrow> FuzzedParameter list" where
  "k_pow2_params pow_two_sizes =
     map (\<lambda>i. \<lparr>name = ''k_pow2_'' @ str i, minval = None, maxval = None,
                distribution =
                  Weighted (map (\<lambda>size. (Value size, 1 / of_nat (length pow_two_sizes)))
                                pow_two_sizes),
                strict = None\<rparr>)
         (range 0 3)"

text \<open>Lines 61 to 70.\<close>

definition k_params :: "FuzzedParameter list" where
  "k_params =
     map (\<lambda>i. \<lparr>name = ''k'' @ str i, minval = None, maxval = None,
                distribution =
                  Weighted [(ParameterAlias (''k_any_'' @ str i), 0.8),
                            (ParameterAlias (''k_pow2_'' @ str i), 0.2)],
                strict = Some True\<rparr>)
         (range 0 3)"

text \<open>Lines 72 to 81.\<close>

definition y_k_params :: "FuzzedParameter list" where
  "y_k_params =
     map (\<lambda>i. \<lparr>name = ''y_k'' @ str i, minval = None, maxval = None,
                distribution = Weighted [(ParameterAlias (''k'' @ str i), 0.8), (Value 1, 0.2)],
                strict = Some True\<rparr>)
         (range 0 3)"

text \<open>Lines 84 to 91: the axis index is the outer loop, the tensor name the inner one.\<close>

definition step_params :: "FuzzedParameter list" where
  "step_params =
     concat (map (\<lambda>i. map (\<lambda>nm. \<lparr>name = nm @ ''_step_'' @ str i, minval = None, maxval = None,
                                   distribution =
                                     Weighted [(Value 1, 0.8), (Value 2, 0.06), (Value 4, 0.06),
                                               (Value 8, 0.04), (Value 16, 0.04)],
                                   strict = None\<rparr>)
                           [''x'', ''y''])
                 (range 0 3))"

text \<open>Line 94.\<close>

definition random_value_param :: FuzzedParameter where
  "random_value_param =
     \<lparr>name = ''random_value'', minval = Some 0, maxval = Some (2 ^ 32 - 1),
      distribution = Named ''uniform'', strict = None\<rparr>"

text \<open>Lines 97 to 109.\<close>

definition tensor_x :: "dtype \<Rightarrow> bool \<Rightarrow> bool \<Rightarrow> int \<Rightarrow> FuzzedTensor" where
  "tensor_x dt cu rg min_el =
     \<lparr>t_name = ''x'', t_size = [''k0'', ''k1'', ''k2''],
      t_steps = [''x_step_0'', ''x_step_1'', ''x_step_2''],
      probability_contiguous = 0.75,
      min_elements = Some min_el,
      max_elements = Some (32 * 1024 ^ 2),
      max_allocation_bytes = Some (2 * 1024 ^ 3),
      dim_parameter = ''dim'', t_dtype = dt, cuda = cu, requires_grad = rg\<rparr>"

text \<open>Lines 110 to 120: neither \<^verbatim>\<open>min_elements\<close> nor \<^verbatim>\<open>max_elements\<close> is passed.\<close>

definition tensor_y :: "dtype \<Rightarrow> bool \<Rightarrow> bool \<Rightarrow> FuzzedTensor" where
  "tensor_y dt cu rg =
     \<lparr>t_name = ''y'', t_size = [''y_k0'', ''y_k1'', ''y_k2''],
      t_steps = [''y_step_0'', ''y_step_1'', ''y_step_2''],
      probability_contiguous = 0.75,
      min_elements = None,
      max_elements = None,
      max_allocation_bytes = Some (2 * 1024 ^ 3),
      dim_parameter = ''dim'', t_dtype = dt, cuda = cu, requires_grad = rg\<rparr>"

text \<open>
  The constructor (lines 31 to 123), with its defaults \<^verbatim>\<open>dtype=torch.float32\<close>,
  \<^verbatim>\<open>cuda=False\<close>, \<^verbatim>\<open>requires_grad=False\<close>, \<^verbatim>\<open>scale=LARGE\<close> passed explicitly. The result is
  what it hands to the base class; a scale that is not a key of the tables raises
  \<^verbatim>\<open>KeyError\<close> at the first lookup.
\<close>

definition BinaryOpFuzzer_init :: "int \<Rightarrow> dtype \<Rightarrow> bool \<Rightarrow> bool \<Rightarrow> string \<Rightarrow> error + Fuzzer" where
  "BinaryOpFuzzer_init sd dt cu rg scale =
     (case getitem MAX_DIM_SIZE scale of Inl e \<Rightarrow> Inl e | Inr max_dim_size \<Rightarrow>
      case getitem POW_TWO_SIZES scale of Inl e \<Rightarrow> Inl e | Inr pow_two_sizes \<Rightarrow>
      case getitem MIN_ELEMENTS scale of Inl e \<Rightarrow> Inl e | Inr min_el \<Rightarrow>
        Inr \<lparr>parameters =
               [One dim_param,
                Many (k_any_params max_dim_size),
                Many (k_pow2_params pow_two_sizes),
                Many k_params,
                Many y_k_params,
                Many step_params,
                One random_value_param],
             tensors = [tensor_x dt cu rg min_el, tensor_y dt cu rg],
             seed = sd\<rparr>)"

text \<open>The declarations of a fuzzer in order, the nested lists flattened.\<close>

definition declared :: "Fuzzer \<Rightarrow> FuzzedParameter list" where
  "declared fz = concat (map (\<lambda>e. case e of One p \<Rightarrow> [p] | Many ps \<Rightarrow> ps) (parameters fz))"

text \<open>The declarations and the tensor requests that carry a given name.\<close>

definition parameter_named :: "Fuzzer \<Rightarrow> string \<Rightarrow> FuzzedParameter list" where
  "parameter_named fz n = filter (\<lambda>p. name p = n) (declared fz)"

definition tensor_named :: "Fuzzer \<Rightarrow> string \<Rightarrow> FuzzedTensor list" where
  "tensor_named fz n = filter (\<lambda>t. t_name t = n) (tensors fz)"

section \<open>Notions used in the statements and proofs\<close>

text \<open>The names that the loop of lines 129 to 131 drops.\<close>

definition intermediate :: "string \<Rightarrow> bool" where
  "intermediate k = (startswith k ''k_any'' \<or> startswith k ''k_pow2'')"

text \<open>The fourteen keys that the body pops by name, in the order of the pops.\<close>

definition required_keys :: "string list" where
  "required_keys = [''random_value'', ''dim'', ''k0'', ''k1'', ''k2'',
     ''x_step_0'', ''x_step_1'', ''x_step_2'', ''y_k0'', ''y_k1'', ''y_k2'',
     ''y_step_0'', ''y_step_1'', ''y_step_2'']"

text \<open>
  The dictionary after lines 128 to 132 have succeeded, the effect of one of the four
  assignments, and the dictionary the whole body leaves.
\<close>

definition stripped :: "dict \<Rightarrow> dict" where
  "stripped p = AList.delete ''dim'' (filter (\<lambda>(k, v). \<not> intermediate k) (AList.delete ''random_value'' p))"

definition consume :: "string \<Rightarrow> string \<Rightarrow> string \<Rightarrow> string \<Rightarrow> pyval \<Rightarrow> dict \<Rightarrow> dict" where
  "consume key a b c v d = AList.update key v (AList.delete c (AList.delete b (AList.delete a d)))"

definition build :: "dict \<Rightarrow> pyval \<Rightarrow> pyval \<Rightarrow> pyval \<Rightarrow> pyval \<Rightarrow> dict" where
  "build p v1 v2 v3 v4 =
     consume ''y_steps'' ''y_step_0'' ''y_step_1'' ''y_step_2'' v4
       (consume ''y_size'' ''y_k0'' ''y_k1'' ''y_k2'' v3
         (consume ''x_steps'' ''x_step_0'' ''x_step_1'' ''x_step_2'' v2
           (consume ''x_size'' ''k0'' ''k1'' ''k2'' v1 (stripped p))))"

section \<open>Concrete inputs\<close>

text \<open>
  A raw sample as the sampling engine produces it: every declared parameter, in
  declaration order, and nothing else.
\<close>

definition sample_raw :: dict where
  "sample_raw =
     [(''dim'', VInt 2),
      (''k_any_0'', VInt 100), (''k_any_1'', VInt 37), (''k_any_2'', VInt 9),
      (''k_pow2_0'', VInt 64), (''k_pow2_1'', VInt 8), (''k_pow2_2'', VInt 16),
      (''k0'', VInt 100), (''k1'', VInt 8), (''k2'', VInt 9),
      (''y_k0'', VInt 100), (''y_k1'', VInt 1), (''y_k2'', VInt 9),
      (''x_step_0'', VInt 1), (''y_step_0'', VInt 1),
      (''x_step_1'', VInt 2), (''y_step_1'', VInt 1),
      (''x_step_2'', VInt 1), (''y_step_2'', VInt 4),
      (''random_value'', VInt 12345)]"

text \<open>What \<^verbatim>\<open>structure_params\<close> returns for it.\<close>

definition sample_out :: dict where
  "sample_out =
     [(''x_size'', VTuple [VInt 100, VInt 8]), (''x_steps'', VTuple [VInt 1, VInt 2]),
      (''y_size'', VTuple [VInt 100, VInt 1]), (''y_steps'', VTuple [VInt 1, VInt 1])]"

text \<open>The same sample with one more key, with a key missing, and with other dimensions.\<close>

definition sample_extra :: dict where
  "sample_extra = sample_raw @ [(''extra'', VInt 7)]"

definition sample_missing :: dict where
  "sample_missing = AList.delete ''y_step_2'' sample_raw"

definition sample_dim5 :: dict where
  "sample_dim5 = AList.update ''dim'' (VInt 5) sample_raw"

definition sample_dim0 :: dict where
  "sample_dim0 = AList.update ''dim'' (VInt 0) sample_raw"

text \<open>The four keys that the body sets.\<close>

definition derived_keys :: "string set" where
  "derived_keys = {''x_size'', ''x_steps'', ''y_size'', ''y_steps''}"

text \<open>The powers of two in a closed interval of integers.\<close>

definition powers_of_two_between :: "int \<Rightarrow> int \<Rightarrow> int set" where
  "powers_of_two_between lo hi = {n. (\<exists>j::nat. n = 2 ^ j) \<and> lo \<le> n \<and> n \<le> hi}"

text \<open>
  The \<^verbatim>\<open>parameters\<close> argument that the constructor builds from the maximum axis size and
  the list of powers of two of the chosen scale.
\<close>

definition space :: "int \<Rightarrow> int list \<Rightarrow> entry list" where
  "space max_dim_size pow_two_sizes =
     [One dim_param, Many (k_any_params max_dim_size), Many (k_pow2_params pow_two_sizes),
      Many k_params, Many y_k_params, Many step_params, One random_value_param]"

section \<open>The steps of the body\<close>


lemma bind_Inr_iff:
  "bind m f d = (Inr y, d'') \<longleftrightarrow> (\<exists>x d'. m d = (Inr x, d') \<and> f x d' = (Inr y, d''))"
  by (auto simp: bind_def split: prod.splits sum.splits)

lemma pop_Inr_iff:
  "pop k d = (Inr v, d') \<longleftrightarrow> map_of d k = Some v \<and> d' = AList.delete k d"
  by (auto simp: pop_def split: option.splits)

lemma return_iff: "return x d = (r, d') \<longleftrightarrow> r = Inr x \<and> d' = d"
  by (auto simp: return_def)

lemma delete_filter: "AList.delete k d = filter (\<lambda>(k', v). k' \<noteq> k) d"
  by (auto simp: AList.delete_eq intro: filter_cong)

lemma drop_intermediate_Inr:
  assumes "drop_intermediate k d = (Inr u, d')"
  shows "d' = filter (\<lambda>(k', v). \<not> (intermediate k' \<and> k' = k)) d"
proof (cases "intermediate k")
  case True
  with assms have "d' = AList.delete k d"
    by (auto simp: drop_intermediate_def intermediate_def bind_Inr_iff pop_Inr_iff return_iff)
  also have "\<dots> = filter (\<lambda>(k', v). \<not> (intermediate k' \<and> k' = k)) d"
    unfolding delete_filter using True by (intro filter_cong) auto
  finally show ?thesis .
next
  case False
  with assms have "d' = d"
    by (auto simp: drop_intermediate_def intermediate_def return_iff)
  moreover have "filter (\<lambda>(k', v). \<not> (intermediate k' \<and> k' = k)) d = d"
    using False by (auto simp: filter_id_conv)
  ultimately show ?thesis by simp
qed

lemma for_each_drop_Inr:
  "for_each ks drop_intermediate d = (Inr u, d') \<Longrightarrow>
     d' = filter (\<lambda>(k, v). \<not> (intermediate k \<and> k \<in> set ks)) d"
proof (induction ks arbitrary: d)
  case Nil
  then show ?case by (simp add: return_iff)
next
  case (Cons k ks)
  from Cons.prems obtain d1 where
    1: "drop_intermediate k d = (Inr (), d1)" and 2: "for_each ks drop_intermediate d1 = (Inr u, d')"
    by (auto simp: bind_Inr_iff)
  from Cons.IH[OF 2] drop_intermediate_Inr[OF 1] show ?case
    by (auto intro: filter_cong)
qed


lemma lift_iff: "lift r d = (res, d') \<longleftrightarrow> r = res \<and> d' = d"
  by (auto simp: lift_def)

lemma setitem_iff: "setitem k v d = (res, d') \<longleftrightarrow> res = Inr () \<and> d' = AList.update k v d"
  by (auto simp: setitem_def)

lemma keys_iff: "keys d = (res, d') \<longleftrightarrow> res = Inr (map fst d) \<and> d' = d"
  by (auto simp: keys_def)

lemma assign_sliced_Inr:
  assumes "a \<noteq> b" "a \<noteq> c" "b \<noteq> c"
  shows "assign_sliced key [a, b, c] stop d = (Inr u, d') \<longleftrightarrow>
     (\<exists>va vb vc v. map_of d a = Some va \<and> map_of d b = Some vb \<and> map_of d c = Some vc
        \<and> slice_to [va, vb, vc] stop = Inr v
        \<and> d' = AList.update key v (AList.delete c (AList.delete b (AList.delete a d))))"
  using assms
  by (auto simp: assign_sliced_def bind_Inr_iff pop_Inr_iff return_iff lift_iff setitem_iff)

lemma filter_keys_self:
  "filter (\<lambda>(k, v). \<not> (P k \<and> k \<in> set (map fst d))) d = filter (\<lambda>(k, v). \<not> P k) d"
  by (intro filter_cong) (auto simp: rev_image_eqI)

lemma loop_Inr:
  assumes "for_each (map fst d) drop_intermediate d = (Inr u, d')"
  shows "d' = filter (\<lambda>(k, v). \<not> intermediate k) d"
  using for_each_drop_Inr[OF assms] by (simp only: filter_keys_self)

lemma map_of_filter_key:
  "map_of (filter (\<lambda>(k, v). Q k) d) k = (if Q k then map_of d k else None)"
  by (induction d) auto

lemma map_of_stripped:
  "map_of (stripped p) k =
     (if k = ''dim'' \<or> k = ''random_value'' \<or> intermediate k then None else map_of p k)"
  by (simp add: stripped_def AList.delete_conv' map_of_filter_key)

lemma map_of_consume:
  "map_of (consume key a b c v d) k =
     (if k = key then Some v else if k = a \<or> k = b \<or> k = c then None else map_of d k)"
  by (simp add: consume_def AList.update_conv' AList.delete_conv')

lemma not_intermediate [simp]:
  "\<not> intermediate ''dim''" "\<not> intermediate ''random_value''"
  "\<not> intermediate ''k0''" "\<not> intermediate ''k1''" "\<not> intermediate ''k2''"
  "\<not> intermediate ''x_step_0''" "\<not> intermediate ''x_step_1''" "\<not> intermediate ''x_step_2''"
  "\<not> intermediate ''y_k0''" "\<not> intermediate ''y_k1''" "\<not> intermediate ''y_k2''"
  "\<not> intermediate ''y_step_0''" "\<not> intermediate ''y_step_1''" "\<not> intermediate ''y_step_2''"
  "\<not> intermediate ''x_size''" "\<not> intermediate ''x_steps''"
  "\<not> intermediate ''y_size''" "\<not> intermediate ''y_steps''"
  by (simp_all add: intermediate_def startswith_def)

lemma body_Inr:
  assumes "structure_params_body p = (Inr u, out)"
  shows "\<exists>rv dm a0 a1 a2 b0 b1 b2 c0 c1 c2 e0 e1 e2 v1 v2 v3 v4.
     map_of p ''random_value'' = Some rv \<and> map_of p ''dim'' = Some dm
   \<and> map_of p ''k0'' = Some a0 \<and> map_of p ''k1'' = Some a1 \<and> map_of p ''k2'' = Some a2
   \<and> map_of p ''x_step_0'' = Some b0 \<and> map_of p ''x_step_1'' = Some b1 \<and> map_of p ''x_step_2'' = Some b2
   \<and> map_of p ''y_k0'' = Some c0 \<and> map_of p ''y_k1'' = Some c1 \<and> map_of p ''y_k2'' = Some c2
   \<and> map_of p ''y_step_0'' = Some e0 \<and> map_of p ''y_step_1'' = Some e1 \<and> map_of p ''y_step_2'' = Some e2
   \<and> slice_to [a0, a1, a2] dm = Inr v1 \<and> slice_to [b0, b1, b2] dm = Inr v2
   \<and> slice_to [c0, c1, c2] dm = Inr v3 \<and> slice_to [e0, e1, e2] dm = Inr v4
   \<and> out = build p v1 v2 v3 v4"
proof -
  from assms obtain rv d1 d2 dm d3 d4 d5 d6 where
    s1: "pop ''random_value'' p = (Inr rv, d1)" and
    s2: "for_each (map fst d1) drop_intermediate d1 = (Inr (), d2)" and
    s3: "pop ''dim'' d2 = (Inr dm, d3)" and
    s4: "assign_sliced ''x_size'' [''k0'', ''k1'', ''k2''] dm d3 = (Inr (), d4)" and
    s5: "assign_sliced ''x_steps'' [''x_step_0'', ''x_step_1'', ''x_step_2''] dm d4 = (Inr (), d5)" and
    s6: "assign_sliced ''y_size'' [''y_k0'', ''y_k1'', ''y_k2''] dm d5 = (Inr (), d6)" and
    s7: "assign_sliced ''y_steps'' [''y_step_0'', ''y_step_1'', ''y_step_2''] dm d6 = (Inr u, out)"
    unfolding structure_params_body_def by (auto simp: bind_Inr_iff keys_iff)
  from s1 have rv: "map_of p ''random_value'' = Some rv" and d1: "d1 = AList.delete ''random_value'' p"
    by (simp_all add: pop_Inr_iff)
  from loop_Inr[OF s2] have d2: "d2 = filter (\<lambda>(k, v). \<not> intermediate k) d1" .
  from s3 have dm': "map_of d2 ''dim'' = Some dm" and d3: "d3 = stripped p"
    by (simp_all add: pop_Inr_iff stripped_def d1 d2)
  from dm' have dm: "map_of p ''dim'' = Some dm"
    by (simp add: d2 d1 map_of_filter_key)
  from s4 obtain a0 a1 a2 v1 where
    a: "map_of d3 ''k0'' = Some a0" "map_of d3 ''k1'' = Some a1" "map_of d3 ''k2'' = Some a2"
    and v1: "slice_to [a0, a1, a2] dm = Inr v1"
    and d4: "d4 = consume ''x_size'' ''k0'' ''k1'' ''k2'' v1 d3"
    by (auto simp: assign_sliced_Inr consume_def)
  from s5 obtain b0 b1 b2 v2 where
    b: "map_of d4 ''x_step_0'' = Some b0" "map_of d4 ''x_step_1'' = Some b1" "map_of d4 ''x_step_2'' = Some b2"
    and v2: "slice_to [b0, b1, b2] dm = Inr v2"
    and d5: "d5 = consume ''x_steps'' ''x_step_0'' ''x_step_1'' ''x_step_2'' v2 d4"
    by (auto simp: assign_sliced_Inr consume_def)
  from s6 obtain c0 c1 c2 v3 where
    c: "map_of d5 ''y_k0'' = Some c0" "map_of d5 ''y_k1'' = Some c1" "map_of d5 ''y_k2'' = Some c2"
    and v3: "slice_to [c0, c1, c2] dm = Inr v3"
    and d6: "d6 = consume ''y_size'' ''y_k0'' ''y_k1'' ''y_k2'' v3 d5"
    by (auto simp: assign_sliced_Inr consume_def)
  from s7 obtain e0 e1 e2 v4 where
    e: "map_of d6 ''y_step_0'' = Some e0" "map_of d6 ''y_step_1'' = Some e1" "map_of d6 ''y_step_2'' = Some e2"
    and v4: "slice_to [e0, e1, e2] dm = Inr v4"
    and out: "out = consume ''y_steps'' ''y_step_0'' ''y_step_1'' ''y_step_2'' v4 d6"
    by (auto simp: assign_sliced_Inr consume_def)
  from a have a': "map_of p ''k0'' = Some a0" "map_of p ''k1'' = Some a1" "map_of p ''k2'' = Some a2"
    by (simp_all add: d3 map_of_stripped)
  from b have b': "map_of p ''x_step_0'' = Some b0" "map_of p ''x_step_1'' = Some b1" "map_of p ''x_step_2'' = Some b2"
    by (simp_all add: d4 d3 map_of_consume map_of_stripped)
  from c have c': "map_of p ''y_k0'' = Some c0" "map_of p ''y_k1'' = Some c1" "map_of p ''y_k2'' = Some c2"
    by (simp_all add: d5 d4 d3 map_of_consume map_of_stripped)
  from e have e': "map_of p ''y_step_0'' = Some e0" "map_of p ''y_step_1'' = Some e1" "map_of p ''y_step_2'' = Some e2"
    by (simp_all add: d6 d5 d4 d3 map_of_consume map_of_stripped)
  have "out = build p v1 v2 v3 v4"
    by (simp add: out d6 d5 d4 d3 build_def)
  with rv dm a' b' c' e' v1 v2 v3 v4 show ?thesis by blast
qed


lemma keys_delete: "fst ` set (AList.delete k d) = fst ` set d - {k}"
  by (metis AList.delete_keys set_map set_removeAll)

lemma keys_filter: "fst ` set (filter (\<lambda>(k, v). Q k) d) = {k \<in> fst ` set d. Q k}"
  by (induction d) auto

lemma drop_intermediate_ok:
  assumes "k \<in> fst ` set d"
  shows "\<exists>d'. drop_intermediate k d = (Inr (), d') \<and> fst ` set d - {k} \<subseteq> fst ` set d'"
proof (cases "intermediate k")
  case True
  from assms obtain v where "map_of d k = Some v"
    by (metis map_of_eq_None_iff not_Some_eq)
  with True have "drop_intermediate k d = (Inr (), AList.delete k d)"
    by (simp add: drop_intermediate_def intermediate_def bind_def pop_def return_def)
  then show ?thesis by (simp add: keys_delete)
next
  case False
  then have "drop_intermediate k d = (Inr (), d)"
    by (simp add: drop_intermediate_def intermediate_def return_def)
  then show ?thesis by auto
qed

lemma for_each_drop_ok:
  "distinct ks \<Longrightarrow> set ks \<subseteq> fst ` set d \<Longrightarrow> \<exists>d'. for_each ks drop_intermediate d = (Inr (), d')"
proof (induction ks arbitrary: d)
  case Nil
  then show ?case by (simp add: return_def)
next
  case (Cons k ks)
  then have "k \<in> fst ` set d" by simp
  from drop_intermediate_ok[OF this] obtain d1 where
    1: "drop_intermediate k d = (Inr (), d1)" and 2: "fst ` set d - {k} \<subseteq> fst ` set d1" by blast
  from Cons.prems 2 have "set ks \<subseteq> fst ` set d1" by auto
  with Cons.IH[of d1] Cons.prems obtain d' where "for_each ks drop_intermediate d1 = (Inr (), d')"
    by auto
  with 1 show ?case by (simp add: bind_def)
qed

lemma loop_ok:
  assumes "wf_dict d"
  shows "for_each (map fst d) drop_intermediate d = (Inr (), filter (\<lambda>(k, v). \<not> intermediate k) d)"
proof -
  from assms have "distinct (map fst d)" by (simp add: wf_dict_def)
  from for_each_drop_ok[OF this, of d] obtain d' where
    1: "for_each (map fst d) drop_intermediate d = (Inr (), d')" by auto
  from loop_Inr[OF 1] 1 show ?thesis by simp
qed

lemma body_ok:
  assumes wf: "wf_dict p"
    and rv: "map_of p ''random_value'' = Some rv" and dm: "map_of p ''dim'' = Some dm"
    and a: "map_of p ''k0'' = Some a0" "map_of p ''k1'' = Some a1" "map_of p ''k2'' = Some a2"
    and b: "map_of p ''x_step_0'' = Some b0" "map_of p ''x_step_1'' = Some b1" "map_of p ''x_step_2'' = Some b2"
    and c: "map_of p ''y_k0'' = Some c0" "map_of p ''y_k1'' = Some c1" "map_of p ''y_k2'' = Some c2"
    and e: "map_of p ''y_step_0'' = Some e0" "map_of p ''y_step_1'' = Some e1" "map_of p ''y_step_2'' = Some e2"
    and v: "slice_to [a0, a1, a2] dm = Inr v1" "slice_to [b0, b1, b2] dm = Inr v2"
           "slice_to [c0, c1, c2] dm = Inr v3" "slice_to [e0, e1, e2] dm = Inr v4"
  shows "structure_params_body p = (Inr (), build p v1 v2 v3 v4)"
proof -
  define d1 where "d1 = AList.delete ''random_value'' p"
  define d2 where "d2 = filter (\<lambda>(k, v). \<not> intermediate k) d1"
  define d4 where "d4 = consume ''x_size'' ''k0'' ''k1'' ''k2'' v1 (stripped p)"
  define d5 where "d5 = consume ''x_steps'' ''x_step_0'' ''x_step_1'' ''x_step_2'' v2 d4"
  define d6 where "d6 = consume ''y_size'' ''y_k0'' ''y_k1'' ''y_k2'' v3 d5"
  have s1: "pop ''random_value'' p = (Inr rv, d1)"
    by (simp add: pop_Inr_iff rv d1_def)
  have "wf_dict d1"
    using wf by (simp add: wf_dict_def d1_def AList.distinct_delete)
  then have s2: "for_each (map fst d1) drop_intermediate d1 = (Inr (), d2)"
    unfolding d2_def by (rule loop_ok)
  have s3: "pop ''dim'' d2 = (Inr dm, stripped p)"
    by (simp add: pop_Inr_iff d2_def d1_def stripped_def map_of_filter_key dm)
  have s4: "assign_sliced ''x_size'' [''k0'', ''k1'', ''k2''] dm (stripped p) = (Inr (), d4)"
    by (simp add: assign_sliced_Inr d4_def consume_def map_of_stripped a v)
  have s5: "assign_sliced ''x_steps'' [''x_step_0'', ''x_step_1'', ''x_step_2''] dm d4 = (Inr (), d5)"
    by (simp add: assign_sliced_Inr consume_def[of "''x_steps''"] d5_def d4_def map_of_consume map_of_stripped b v)
  have s6: "assign_sliced ''y_size'' [''y_k0'', ''y_k1'', ''y_k2''] dm d5 = (Inr (), d6)"
    by (simp add: assign_sliced_Inr consume_def[of "''y_size''"] d6_def d5_def d4_def map_of_consume map_of_stripped c v)
  have s7: "assign_sliced ''y_steps'' [''y_step_0'', ''y_step_1'', ''y_step_2''] dm d6
              = (Inr (), build p v1 v2 v3 v4)"
    by (simp add: assign_sliced_Inr consume_def[of "''y_steps''"] build_def d6_def d5_def d4_def map_of_consume map_of_stripped e v)
  show ?thesis
    unfolding structure_params_body_def
    by (simp add: bind_def s1 keys_def s2 s3 s4 s5 s6 s7)
qed

lemma keys_consume:
  "fst ` set (consume key a b c v d) = insert key (fst ` set d - {a, b, c})"
  by (auto simp: consume_def AList.dom_update keys_delete)

lemma keys_stripped:
  "fst ` set (stripped p) = {k \<in> fst ` set p. k \<noteq> ''dim'' \<and> k \<noteq> ''random_value'' \<and> \<not> intermediate k}"
  unfolding stripped_def keys_delete keys_filter by auto

lemma wf_consume: "wf_dict d \<Longrightarrow> wf_dict (consume key a b c v d)"
  by (simp add: wf_dict_def consume_def AList.distinct_update AList.distinct_delete)

lemma wf_stripped: "wf_dict p \<Longrightarrow> wf_dict (stripped p)"
  by (simp add: wf_dict_def stripped_def AList.distinct_delete distinct_map_filter)

lemma wf_build: "wf_dict p \<Longrightarrow> wf_dict (build p v1 v2 v3 v4)"
  by (simp add: build_def wf_consume wf_stripped)

lemma keys_build:
  "fst ` set (build p v1 v2 v3 v4) =
     derived_keys \<union> {k \<in> fst ` set p. k \<notin> set required_keys \<and> \<not> intermediate k}"
  unfolding build_def keys_consume keys_stripped required_keys_def derived_keys_def by auto

lemma map_of_build:
  "map_of (build p v1 v2 v3 v4) k =
    (if k = ''y_steps'' then Some v4 else if k = ''y_size'' then Some v3
     else if k = ''x_steps'' then Some v2 else if k = ''x_size'' then Some v1
     else if k \<in> set required_keys \<or> intermediate k then None else map_of p k)"
  by (simp add: build_def map_of_consume map_of_stripped required_keys_def)


section \<open>Results of the whole function\<close>

lemma three_values:
  assumes "map (map_of p) [a, b, c] = map Some vs"
  obtains va vb vc where "vs = [va, vb, vc]" "map_of p a = Some va" "map_of p b = Some vb" "map_of p c = Some vc"
  using assms by (auto simp: Cons_eq_map_conv)

lemma structure_params_Inr:
  assumes "structure_params params = Inr out"
  shows "\<exists>u. structure_params_body params = (Inr u, out)"
  using assms by (auto simp: structure_params_def split: prod.splits sum.splits)

lemma structure_params_int_dim:
  assumes wf: "wf_dict params"
    and rv: "''random_value'' \<in> fst ` set params"
    and dm: "map_of params ''dim'' = Some (VInt d)"
    and ks: "map (map_of params) [''k0'', ''k1'', ''k2''] = map Some ks"
    and xs: "map (map_of params) [''x_step_0'', ''x_step_1'', ''x_step_2''] = map Some xs"
    and yk: "map (map_of params) [''y_k0'', ''y_k1'', ''y_k2''] = map Some yks"
    and ys: "map (map_of params) [''y_step_0'', ''y_step_1'', ''y_step_2''] = map Some ys"
  shows "\<exists>v1 v2 v3 v4.
           slice_to ks (VInt d) = Inr v1 \<and> slice_to xs (VInt d) = Inr v2
         \<and> slice_to yks (VInt d) = Inr v3 \<and> slice_to ys (VInt d) = Inr v4
         \<and> length ks = 3 \<and> length xs = 3 \<and> length yks = 3 \<and> length ys = 3
         \<and> structure_params params = Inr (build params v1 v2 v3 v4)"
proof -
  from rv obtain r where r: "map_of params ''random_value'' = Some r"
    by (metis map_of_eq_None_iff not_Some_eq)
  from ks obtain a0 a1 a2 where a: "ks = [a0, a1, a2]"
    "map_of params ''k0'' = Some a0" "map_of params ''k1'' = Some a1" "map_of params ''k2'' = Some a2"
    by (rule three_values)
  from xs obtain b0 b1 b2 where b: "xs = [b0, b1, b2]"
    "map_of params ''x_step_0'' = Some b0" "map_of params ''x_step_1'' = Some b1"
    "map_of params ''x_step_2'' = Some b2"
    by (rule three_values)
  from yk obtain c0 c1 c2 where c: "yks = [c0, c1, c2]"
    "map_of params ''y_k0'' = Some c0" "map_of params ''y_k1'' = Some c1" "map_of params ''y_k2'' = Some c2"
    by (rule three_values)
  from ys obtain e0 e1 e2 where e: "ys = [e0, e1, e2]"
    "map_of params ''y_step_0'' = Some e0" "map_of params ''y_step_1'' = Some e1"
    "map_of params ''y_step_2'' = Some e2"
    by (rule three_values)
  obtain v1 v2 v3 v4 where v:
    "slice_to [a0, a1, a2] (VInt d) = Inr v1" "slice_to [b0, b1, b2] (VInt d) = Inr v2"
    "slice_to [c0, c1, c2] (VInt d) = Inr v3" "slice_to [e0, e1, e2] (VInt d) = Inr v4"
    by simp
  from body_ok[OF wf r dm a(2-4) b(2-4) c(2-4) e(2-4) v]
  have "structure_params params = Inr (build params v1 v2 v3 v4)"
    by (simp add: structure_params_def)
  with v show ?thesis unfolding a(1) b(1) c(1) e(1) by simp
qed

lemma union_leftover:
  "S \<subseteq> R \<union> Collect I \<Longrightarrow> A \<union> {k \<in> S. k \<notin> R \<and> \<not> I k} = A"
  by auto

lemma present_value:
  "k \<in> fst ` set p \<Longrightarrow> \<exists>v. map_of p k = Some v"
  by (metis map_of_eq_None_iff not_Some_eq)

lemma three_present:
  assumes "a \<in> fst ` set p" "b \<in> fst ` set p" "c \<in> fst ` set p"
  shows "\<exists>vs. map (map_of p) [a, b, c] = map Some vs"
proof -
  from assms present_value obtain va vb vc where
    "map_of p a = Some va" "map_of p b = Some vb" "map_of p c = Some vc"
    by metis
  then have "map (map_of p) [a, b, c] = map Some [va, vb, vc]" by simp
  then show ?thesis by (rule exI)
qed

lemma required_present:
  assumes "set required_keys \<subseteq> fst ` set p"
  shows "''random_value'' \<in> fst ` set p"
    and "\<exists>vs. map (map_of p) [''k0'', ''k1'', ''k2''] = map Some vs"
    and "\<exists>vs. map (map_of p) [''x_step_0'', ''x_step_1'', ''x_step_2''] = map Some vs"
    and "\<exists>vs. map (map_of p) [''y_k0'', ''y_k1'', ''y_k2''] = map Some vs"
    and "\<exists>vs. map (map_of p) [''y_step_0'', ''y_step_1'', ''y_step_2''] = map Some vs"
proof -
  have m: "k \<in> fst ` set p" if "k \<in> set required_keys" for k
    using assms that by (rule subsetD)
  show "''random_value'' \<in> fst ` set p"
    by (rule m) (simp add: required_keys_def)
  show "\<exists>vs. map (map_of p) [''k0'', ''k1'', ''k2''] = map Some vs"
    by (intro three_present m) (simp_all add: required_keys_def)
  show "\<exists>vs. map (map_of p) [''x_step_0'', ''x_step_1'', ''x_step_2''] = map Some vs"
    by (intro three_present m) (simp_all add: required_keys_def)
  show "\<exists>vs. map (map_of p) [''y_k0'', ''y_k1'', ''y_k2''] = map Some vs"
    by (intro three_present m) (simp_all add: required_keys_def)
  show "\<exists>vs. map (map_of p) [''y_step_0'', ''y_step_1'', ''y_step_2''] = map Some vs"
    by (intro three_present m) (simp_all add: required_keys_def)
qed

text \<open>
  The function on the store allocates one object, runs the body on it, and agrees with the
  function on values.
\<close>

lemma structure_params_st_eq:
  "structure_params_st a h =
     (case structure_params_body (h ! a) of
        (Inl e, d') \<Rightarrow> (Inl e, h @ [d'])
      | (Inr u, d') \<Rightarrow> (Inr (length h), h @ [d']))"
  by (simp add: structure_params_st_def dict_copy_def at_addr_def split: prod.splits sum.splits)

lemma structure_params_st_refines:
  assumes "structure_params_st a h = (res, h')"
  shows "case res of Inl e \<Rightarrow> structure_params (h ! a) = Inl e
                   | Inr r \<Rightarrow> structure_params (h ! a) = Inr (h' ! r)"
  using assms
  by (auto simp: structure_params_st_eq structure_params_def split: prod.splits sum.splits)


section \<open>Claims about \<^verbatim>\<open>structure_params\<close>\<close>

text \<open>
  Claim C1, as stated: for every raw sample that contains at least the declared parameter
  names, the returned mapping has exactly the four keys \<open>x_size\<close>, \<open>x_steps\<close>, \<open>y_size\<close>,
  \<open>y_steps\<close>. It fails: the function removes only the keys it knows, so a sample with all the
  declared names and one more key keeps that key in the output.
\<close>

theorem structure_params_extra_key_counterexample:
  "wf_dict sample_extra \<and> set required_keys \<subseteq> fst ` set sample_extra
   \<and> {''k_any_0'', ''k_any_1'', ''k_any_2'', ''k_pow2_0'', ''k_pow2_1'', ''k_pow2_2''}
        \<subseteq> fst ` set sample_extra
   \<and> structure_params sample_extra = Inr ((''extra'', VInt 7) # sample_out)
   \<and> ''extra'' \<in> fst ` set ((''extra'', VInt 7) # sample_out)
   \<and> ''extra'' \<notin> derived_keys"
proof -
  have 1: "structure_params sample_extra = Inr ((''extra'', VInt 7) # sample_out)"
    by code_simp
  have 2: "wf_dict sample_extra"
    by (simp add: wf_dict_def sample_extra_def sample_raw_def)
  have 3: "set required_keys \<subseteq> fst ` set sample_extra"
    by (simp add: required_keys_def sample_extra_def sample_raw_def)
  have 4: "{''k_any_0'', ''k_any_1'', ''k_any_2'', ''k_pow2_0'', ''k_pow2_1'', ''k_pow2_2''}
        \<subseteq> fst ` set sample_extra"
    by (simp add: sample_extra_def sample_raw_def)
  have 5: "''extra'' \<in> fst ` set ((''extra'', VInt 7) # sample_out)"
    by simp
  have 6: "''extra'' \<notin> derived_keys"
    by (simp add: derived_keys_def)
  from 2 3 4 1 5 6 show ?thesis by (intro conjI)
qed

text \<open>
  Claim C1, amended: for every well-formed dictionary that holds the fourteen keys the body
  pops and whose \<open>dim\<close> is an integer, the function returns a mapping whose keys are the four
  derived keys together with every input key that is neither one of the fourteen nor
  prefixed \<open>k_any\<close> or \<open>k_pow2\<close>. When the input holds declared parameter names only, the
  output has exactly the four derived keys.
\<close>

theorem structure_params_keys:
  assumes "wf_dict params"
    and "set required_keys \<subseteq> fst ` set params"
    and "map_of params ''dim'' = Some (VInt d)"
  shows "\<exists>out. structure_params params = Inr out
     \<and> fst ` set out =
         derived_keys \<union> {k \<in> fst ` set params. k \<notin> set required_keys \<and> \<not> intermediate k}
     \<and> (fst ` set params \<subseteq> set required_keys \<union> Collect intermediate \<longrightarrow>
          fst ` set out = derived_keys)"
proof -
  from required_present[OF assms(2)] obtain ks xs yks ys where
    rv: "''random_value'' \<in> fst ` set params"
    and ks: "map (map_of params) [''k0'', ''k1'', ''k2''] = map Some ks"
    and xs: "map (map_of params) [''x_step_0'', ''x_step_1'', ''x_step_2''] = map Some xs"
    and yks: "map (map_of params) [''y_k0'', ''y_k1'', ''y_k2''] = map Some yks"
    and ys: "map (map_of params) [''y_step_0'', ''y_step_1'', ''y_step_2''] = map Some ys"
    by metis
  from structure_params_int_dim[OF assms(1) rv assms(3) ks xs yks ys]
  obtain v1 v2 v3 v4 where out: "structure_params params = Inr (build params v1 v2 v3 v4)"
    by metis
  have 1: "fst ` set (build params v1 v2 v3 v4) =
         derived_keys \<union> {k \<in> fst ` set params. k \<notin> set required_keys \<and> \<not> intermediate k}"
    by (rule keys_build)
  have 2: "fst ` set params \<subseteq> set required_keys \<union> Collect intermediate \<longrightarrow>
          fst ` set (build params v1 v2 v3 v4) = derived_keys"
    unfolding 1 by (rule impI) (rule union_leftover)
  from out 1 2 show ?thesis by (intro exI[of _ "build params v1 v2 v3 v4"] conjI)
qed

theorem structure_params_keys_witness:
  "(wf_dict sample_extra \<and> set required_keys \<subseteq> fst ` set sample_extra
    \<and> map_of sample_extra ''dim'' = Some (VInt 2)
    \<and> (\<exists>out. structure_params sample_extra = Inr out
          \<and> fst ` set out = derived_keys \<union>
              {k \<in> fst ` set sample_extra. k \<notin> set required_keys \<and> \<not> intermediate k}))
   \<and> (wf_dict sample_raw \<and> set required_keys \<subseteq> fst ` set sample_raw
    \<and> map_of sample_raw ''dim'' = Some (VInt 2)
    \<and> fst ` set sample_raw \<subseteq> set required_keys \<union> Collect intermediate
    \<and> (\<exists>out. structure_params sample_raw = Inr out \<and> fst ` set out = derived_keys))"
proof -
  have 1: "wf_dict sample_extra"
    by (simp add: wf_dict_def sample_extra_def sample_raw_def)
  have 2: "set required_keys \<subseteq> fst ` set sample_extra"
    by (simp add: required_keys_def sample_extra_def sample_raw_def)
  have 3: "map_of sample_extra ''dim'' = Some (VInt 2)"
    by (simp add: sample_extra_def sample_raw_def)
  have 4: "wf_dict sample_raw"
    by (simp add: wf_dict_def sample_raw_def)
  have 5: "set required_keys \<subseteq> fst ` set sample_raw"
    by (simp add: required_keys_def sample_raw_def)
  have 6: "map_of sample_raw ''dim'' = Some (VInt 2)"
    by (simp add: sample_raw_def)
  have 7: "fst ` set sample_raw \<subseteq> set required_keys \<union> Collect intermediate"
    by (simp add: sample_raw_def required_keys_def intermediate_def startswith_def)
  from structure_params_keys[OF 1 2 3]
  have a: "\<exists>out. structure_params sample_extra = Inr out
          \<and> fst ` set out = derived_keys \<union>
              {k \<in> fst ` set sample_extra. k \<notin> set required_keys \<and> \<not> intermediate k}"
    by metis
  from structure_params_keys[OF 4 5 6] 7
  have b: "\<exists>out. structure_params sample_raw = Inr out \<and> fst ` set out = derived_keys"
    by metis
  from 1 2 3 a 4 5 6 7 b show ?thesis by (intro conjI)
qed

text \<open>
  Claim C3: for every raw sample that holds the required keys, with \<open>dim\<close> in \<open>{1, 2, 3}\<close>,
  the output maps \<open>x_size\<close> to the first \<open>dim\<close> elements of \<open>(k0, k1, k2)\<close>, \<open>x_steps\<close> to the
  first \<open>dim\<close> elements of \<open>(x_step_0, x_step_1, x_step_2)\<close>, and \<open>y_size\<close> and \<open>y_steps\<close>
  likewise from the \<open>y\<close> families, in axis order; the four sequences have length \<open>dim\<close>.
\<close>

theorem structure_params_truncates_to_dim:
  assumes "wf_dict params"
    and "''random_value'' \<in> fst ` set params"
    and "map_of params ''dim'' = Some (VInt d)"
    and "d \<in> {1, 2, 3}"
    and "map (map_of params) [''k0'', ''k1'', ''k2''] = map Some ks"
    and "map (map_of params) [''x_step_0'', ''x_step_1'', ''x_step_2''] = map Some xs"
    and "map (map_of params) [''y_k0'', ''y_k1'', ''y_k2''] = map Some yks"
    and "map (map_of params) [''y_step_0'', ''y_step_1'', ''y_step_2''] = map Some ys"
  shows "\<exists>out. structure_params params = Inr out
     \<and> map_of out ''x_size'' = Some (VTuple (take (nat d) ks))
     \<and> map_of out ''x_steps'' = Some (VTuple (take (nat d) xs))
     \<and> map_of out ''y_size'' = Some (VTuple (take (nat d) yks))
     \<and> map_of out ''y_steps'' = Some (VTuple (take (nat d) ys))
     \<and> int (length (take (nat d) ks)) = d \<and> int (length (take (nat d) xs)) = d
     \<and> int (length (take (nat d) yks)) = d \<and> int (length (take (nat d) ys)) = d"
proof -
  from structure_params_int_dim[OF assms(1,2,3,5,6,7,8)]
  obtain v1 v2 v3 v4 where
    v: "slice_to ks (VInt d) = Inr v1" "slice_to xs (VInt d) = Inr v2"
       "slice_to yks (VInt d) = Inr v3" "slice_to ys (VInt d) = Inr v4"
    and len: "length ks = 3" "length xs = 3" "length yks = 3" "length ys = 3"
    and out: "structure_params params = Inr (build params v1 v2 v3 v4)"
    by metis
  from assms(4) have d: "0 \<le> d" "d \<le> 3" by auto
  from v d have vs: "v1 = VTuple (take (nat d) ks)" "v2 = VTuple (take (nat d) xs)"
    "v3 = VTuple (take (nat d) yks)" "v4 = VTuple (take (nat d) ys)"
    by auto
  have m: "map_of (build params v1 v2 v3 v4) ''x_size'' = Some v1"
    "map_of (build params v1 v2 v3 v4) ''x_steps'' = Some v2"
    "map_of (build params v1 v2 v3 v4) ''y_size'' = Some v3"
    "map_of (build params v1 v2 v3 v4) ''y_steps'' = Some v4"
    by (simp_all add: map_of_build)
  from d len have l: "int (length (take (nat d) ks)) = d" "int (length (take (nat d) xs)) = d"
    "int (length (take (nat d) yks)) = d" "int (length (take (nat d) ys)) = d"
    by simp_all
  from out m l show ?thesis unfolding vs
    by (intro exI[of _ "build params (VTuple (take (nat d) ks)) (VTuple (take (nat d) xs))
          (VTuple (take (nat d) yks)) (VTuple (take (nat d) ys))"] conjI)
qed

theorem structure_params_truncates_to_dim_witness:
  "wf_dict sample_raw \<and> ''random_value'' \<in> fst ` set sample_raw
   \<and> map_of sample_raw ''dim'' = Some (VInt 2) \<and> (2::int) \<in> {1, 2, 3}
   \<and> map (map_of sample_raw) [''k0'', ''k1'', ''k2''] = map Some [VInt 100, VInt 8, VInt 9]
   \<and> map (map_of sample_raw) [''x_step_0'', ''x_step_1'', ''x_step_2'']
        = map Some [VInt 1, VInt 2, VInt 1]
   \<and> map (map_of sample_raw) [''y_k0'', ''y_k1'', ''y_k2''] = map Some [VInt 100, VInt 1, VInt 9]
   \<and> map (map_of sample_raw) [''y_step_0'', ''y_step_1'', ''y_step_2'']
        = map Some [VInt 1, VInt 1, VInt 4]
   \<and> (\<exists>out. structure_params sample_raw = Inr out
     \<and> map_of out ''x_size'' = Some (VTuple [VInt 100, VInt 8])
     \<and> map_of out ''x_steps'' = Some (VTuple [VInt 1, VInt 2])
     \<and> map_of out ''y_size'' = Some (VTuple [VInt 100, VInt 1])
     \<and> map_of out ''y_steps'' = Some (VTuple [VInt 1, VInt 1]))"
proof -
  have 1: "wf_dict sample_raw"
    by (simp add: wf_dict_def sample_raw_def)
  have 2: "''random_value'' \<in> fst ` set sample_raw"
    by (simp add: sample_raw_def)
  have 3: "map_of sample_raw ''dim'' = Some (VInt 2)"
    by (simp add: sample_raw_def)
  have 4: "(2::int) \<in> {1, 2, 3}" by simp
  have 5: "map (map_of sample_raw) [''k0'', ''k1'', ''k2''] = map Some [VInt 100, VInt 8, VInt 9]"
    by (simp add: sample_raw_def)
  have 6: "map (map_of sample_raw) [''x_step_0'', ''x_step_1'', ''x_step_2'']
        = map Some [VInt 1, VInt 2, VInt 1]"
    by (simp add: sample_raw_def)
  have 7: "map (map_of sample_raw) [''y_k0'', ''y_k1'', ''y_k2''] = map Some [VInt 100, VInt 1, VInt 9]"
    by (simp add: sample_raw_def)
  have 8: "map (map_of sample_raw) [''y_step_0'', ''y_step_1'', ''y_step_2'']
        = map Some [VInt 1, VInt 1, VInt 4]"
    by (simp add: sample_raw_def)
  have t: "take (nat 2) [a, b, c] = [a, b]" for a b c :: pyval
    by (simp add: numeral_2_eq_2)
  from structure_params_truncates_to_dim[OF 1 2 3 4 5 6 7 8]
  have "\<exists>out. structure_params sample_raw = Inr out
     \<and> map_of out ''x_size'' = Some (VTuple [VInt 100, VInt 8])
     \<and> map_of out ''x_steps'' = Some (VTuple [VInt 1, VInt 2])
     \<and> map_of out ''y_size'' = Some (VTuple [VInt 100, VInt 1])
     \<and> map_of out ''y_steps'' = Some (VTuple [VInt 1, VInt 1])"
    unfolding t by metis
  with 1 2 3 4 5 6 7 8 show ?thesis by (intro conjI)
qed

text \<open>
  Claim C4: whenever \<^verbatim>\<open>structure_params\<close> returns a mapping, that mapping has no key
  \<open>random_value\<close> and no key that starts with \<open>k_any\<close> or with \<open>k_pow2\<close>.
\<close>

theorem structure_params_drops_intermediate:
  assumes "structure_params params = Inr out"
  shows "''random_value'' \<notin> fst ` set out
       \<and> (\<forall>k \<in> fst ` set out. \<not> startswith k ''k_any'' \<and> \<not> startswith k ''k_pow2'')"
proof -
  from assms obtain u where "structure_params_body params = (Inr u, out)"
    using structure_params_Inr by blast
  from body_Inr[OF this] obtain v1 v2 v3 v4 where "out = build params v1 v2 v3 v4"
    by blast
  then have "fst ` set out =
     derived_keys \<union> {k \<in> fst ` set params. k \<notin> set required_keys \<and> \<not> intermediate k}"
    by (simp only: keys_build)
  moreover have "\<forall>k \<in> derived_keys. \<not> intermediate k \<and> k \<noteq> ''random_value''"
    by (simp add: derived_keys_def)
  moreover have "''random_value'' \<in> set required_keys"
    by (simp add: required_keys_def)
  ultimately have "''random_value'' \<notin> fst ` set out" "\<forall>k \<in> fst ` set out. \<not> intermediate k"
    by blast+
  then show ?thesis
    by (simp add: intermediate_def)
qed

theorem structure_params_drops_intermediate_witness:
  "structure_params sample_raw = Inr sample_out
   \<and> ''random_value'' \<notin> fst ` set sample_out
   \<and> \<not> (\<exists>k \<in> fst ` set sample_out. startswith k ''k_any'' \<or> startswith k ''k_pow2'')"
proof -
  have 1: "structure_params sample_raw = Inr sample_out"
    by code_simp
  from structure_params_drops_intermediate[OF 1] 1 show ?thesis by blast
qed

text \<open>
  Claim C5: if one of the keys \<open>random_value\<close>, \<open>dim\<close>, \<open>k0..k2\<close>, \<open>x_step_0..2\<close>,
  \<open>y_k0..y_k2\<close>, \<open>y_step_0..2\<close> is absent from the input, \<^verbatim>\<open>structure_params\<close> raises: the
  result is an error and no mapping is returned.
\<close>

theorem structure_params_missing_key_raises:
  assumes "k \<in> set required_keys" and "k \<notin> fst ` set params"
  shows "\<exists>e. structure_params params = Inl e"
proof (cases "structure_params params")
  case (Inl e)
  then show ?thesis by blast
next
  case (Inr out)
  then obtain u where "structure_params_body params = (Inr u, out)"
    using structure_params_Inr by blast
  from body_Inr[OF this] have "\<forall>k \<in> set required_keys. map_of params k \<noteq> None"
    by (auto simp: required_keys_def)
  with assms(1) have "map_of params k \<noteq> None" by blast
  with assms(2) show ?thesis by (simp add: map_of_eq_None_iff)
qed

theorem structure_params_missing_key_raises_witness:
  "''y_step_2'' \<in> set required_keys \<and> ''y_step_2'' \<notin> fst ` set sample_missing
   \<and> (\<exists>e. structure_params sample_missing = Inl e)
   \<and> structure_params sample_missing = Inl (KeyError ''y_step_2'')"
proof -
  have 1: "''y_step_2'' \<in> set required_keys" by (simp add: required_keys_def)
  have 2: "''y_step_2'' \<notin> fst ` set sample_missing"
    by (simp add: sample_missing_def keys_delete)
  have 3: "structure_params sample_missing = Inl (KeyError ''y_step_2'')"
    by code_simp
  from structure_params_missing_key_raises[OF 1 2] 1 2 3 show ?thesis by (intro conjI)
qed

text \<open>
  Claim C6: \<^verbatim>\<open>structure_params\<close> is deterministic. Called twice with the same argument,
  the second time in the store the first call left, it raises the same error twice, or it
  returns two dictionaries with the same entries; the first result is untouched by the
  second call.
\<close>

theorem structure_params_deterministic:
  assumes "a < length h"
    and "structure_params_st a h = (res1, h1)"
    and "structure_params_st a h1 = (res2, h2)"
  shows "case res1 of
           Inl e \<Rightarrow> res2 = Inl e
         | Inr r1 \<Rightarrow> (\<exists>r2. res2 = Inr r2 \<and> h2 ! r2 = h1 ! r1 \<and> h2 ! r1 = h1 ! r1)"
proof -
  from assms(1,2) have same: "h1 ! a = h ! a" and len: "length h1 = Suc (length h)"
    by (auto simp: structure_params_st_eq nth_append split: prod.splits sum.splits)
  obtain r d' where b: "structure_params_body (h ! a) = (r, d')"
    by (cases "structure_params_body (h ! a)")
  from assms(2) b have 1: "h1 = h @ [d']"
    "res1 = (case r of Inl e \<Rightarrow> Inl e | Inr u \<Rightarrow> Inr (length h))"
    by (auto simp: structure_params_st_eq split: sum.splits)
  from assms(3) b same have 2: "h2 = h1 @ [d']"
    "res2 = (case r of Inl e \<Rightarrow> Inl e | Inr u \<Rightarrow> Inr (length h1))"
    by (auto simp: structure_params_st_eq split: sum.splits)
  show ?thesis
    by (cases r) (simp_all add: 1 2 nth_append)
qed

theorem structure_params_deterministic_witness:
  "(0::nat) < length [sample_raw]
   \<and> structure_params_st 0 [sample_raw] = (Inr 1, [sample_raw, sample_out])
   \<and> structure_params_st 0 [sample_raw, sample_out]
        = (Inr 2, [sample_raw, sample_out, sample_out])
   \<and> [sample_raw, sample_out, sample_out] ! 2 = [sample_raw, sample_out] ! 1"
proof -
  have 1: "(0::nat) < length [sample_raw]" by simp
  have 2: "structure_params_st 0 [sample_raw] = (Inr 1, [sample_raw, sample_out])"
    by code_simp
  have 3: "structure_params_st 0 [sample_raw, sample_out]
             = (Inr 2, [sample_raw, sample_out, sample_out])"
    by code_simp
  from structure_params_deterministic[OF 1 2 3]
  have "[sample_raw, sample_out, sample_out] ! 2 = [sample_raw, sample_out] ! 1" by simp
  with 1 2 3 show ?thesis by (intro conjI)
qed

text \<open>
  Claim C7: \<^verbatim>\<open>structure_params\<close> leaves its argument as it was. Whether the call returns
  or raises, the dictionary at the argument's address, and every dictionary that was in the
  store before the call, has the same entries afterwards.
\<close>

theorem structure_params_leaves_input:
  assumes "a < length h" and "structure_params_st a h = (res, h')"
  shows "h' ! a = h ! a \<and> take (length h) h' = h"
  using assms
  by (auto simp: structure_params_st_eq nth_append split: prod.splits sum.splits)

theorem structure_params_leaves_input_witness:
  "(0::nat) < length [sample_raw]
   \<and> structure_params_st 0 [sample_raw] = (Inr 1, [sample_raw, sample_out])
   \<and> [sample_raw, sample_out] ! 0 = [sample_raw] ! 0
   \<and> take (length [sample_raw]) [sample_raw, sample_out] = [sample_raw]"
proof -
  have 1: "(0::nat) < length [sample_raw]" by simp
  have 2: "structure_params_st 0 [sample_raw] = (Inr 1, [sample_raw, sample_out])"
    by code_simp
  from structure_params_leaves_input[OF 1 2] 1 2 show ?thesis by blast
qed

text \<open>
  Claim C10: \<^verbatim>\<open>structure_params\<close> does not validate \<open>dim\<close>. For every input that holds the
  required keys and an integer \<open>dim\<close>, no error is raised; when \<open>dim\<close> is greater than 3 the
  four sequences are the whole triples, of length 3, and when \<open>dim\<close> is 0 they are empty.
\<close>

theorem structure_params_dim_not_validated:
  assumes "wf_dict params"
    and "''random_value'' \<in> fst ` set params"
    and "map_of params ''dim'' = Some (VInt d)"
    and "map (map_of params) [''k0'', ''k1'', ''k2''] = map Some ks"
    and "map (map_of params) [''x_step_0'', ''x_step_1'', ''x_step_2''] = map Some xs"
    and "map (map_of params) [''y_k0'', ''y_k1'', ''y_k2''] = map Some yks"
    and "map (map_of params) [''y_step_0'', ''y_step_1'', ''y_step_2''] = map Some ys"
  shows "\<exists>out. structure_params params = Inr out
     \<and> (3 < d \<longrightarrow>
           map_of out ''x_size'' = Some (VTuple ks) \<and> map_of out ''x_steps'' = Some (VTuple xs)
         \<and> map_of out ''y_size'' = Some (VTuple yks) \<and> map_of out ''y_steps'' = Some (VTuple ys)
         \<and> length ks = 3 \<and> length xs = 3 \<and> length yks = 3 \<and> length ys = 3)
     \<and> (d = 0 \<longrightarrow>
           map_of out ''x_size'' = Some (VTuple []) \<and> map_of out ''x_steps'' = Some (VTuple [])
         \<and> map_of out ''y_size'' = Some (VTuple []) \<and> map_of out ''y_steps'' = Some (VTuple []))"
proof -
  from structure_params_int_dim[OF assms]
  obtain v1 v2 v3 v4 where
    v: "slice_to ks (VInt d) = Inr v1" "slice_to xs (VInt d) = Inr v2"
       "slice_to yks (VInt d) = Inr v3" "slice_to ys (VInt d) = Inr v4"
    and len: "length ks = 3" "length xs = 3" "length yks = 3" "length ys = 3"
    and out: "structure_params params = Inr (build params v1 v2 v3 v4)"
    by metis
  have m: "map_of (build params w1 w2 w3 w4) ''x_size'' = Some w1"
    "map_of (build params w1 w2 w3 w4) ''x_steps'' = Some w2"
    "map_of (build params w1 w2 w3 w4) ''y_size'' = Some w3"
    "map_of (build params w1 w2 w3 w4) ''y_steps'' = Some w4" for w1 w2 w3 w4
    by (simp_all add: map_of_build)
  have big: "v1 = VTuple ks \<and> v2 = VTuple xs \<and> v3 = VTuple yks \<and> v4 = VTuple ys" if "3 < d"
    using that v len by auto
  have zero: "v1 = VTuple [] \<and> v2 = VTuple [] \<and> v3 = VTuple [] \<and> v4 = VTuple []" if "d = 0"
    using that v by auto
  from out len big zero show ?thesis
    by (intro exI[of _ "build params v1 v2 v3 v4"]) (simp add: m)
qed

theorem structure_params_dim_not_validated_witness:
  "(wf_dict sample_dim5 \<and> ''random_value'' \<in> fst ` set sample_dim5
    \<and> map_of sample_dim5 ''dim'' = Some (VInt 5) \<and> (3::int) < 5
    \<and> map (map_of sample_dim5) [''k0'', ''k1'', ''k2''] = map Some [VInt 100, VInt 8, VInt 9]
    \<and> map (map_of sample_dim5) [''x_step_0'', ''x_step_1'', ''x_step_2'']
         = map Some [VInt 1, VInt 2, VInt 1]
    \<and> map (map_of sample_dim5) [''y_k0'', ''y_k1'', ''y_k2'']
         = map Some [VInt 100, VInt 1, VInt 9]
    \<and> map (map_of sample_dim5) [''y_step_0'', ''y_step_1'', ''y_step_2'']
         = map Some [VInt 1, VInt 1, VInt 4]
    \<and> (\<exists>out. structure_params sample_dim5 = Inr out
          \<and> map_of out ''x_size'' = Some (VTuple [VInt 100, VInt 8, VInt 9])
          \<and> map_of out ''x_steps'' = Some (VTuple [VInt 1, VInt 2, VInt 1])
          \<and> map_of out ''y_size'' = Some (VTuple [VInt 100, VInt 1, VInt 9])
          \<and> map_of out ''y_steps'' = Some (VTuple [VInt 1, VInt 1, VInt 4])))
   \<and> (wf_dict sample_dim0 \<and> ''random_value'' \<in> fst ` set sample_dim0
    \<and> map_of sample_dim0 ''dim'' = Some (VInt 0)
    \<and> map (map_of sample_dim0) [''k0'', ''k1'', ''k2''] = map Some [VInt 100, VInt 8, VInt 9]
    \<and> map (map_of sample_dim0) [''x_step_0'', ''x_step_1'', ''x_step_2'']
         = map Some [VInt 1, VInt 2, VInt 1]
    \<and> map (map_of sample_dim0) [''y_k0'', ''y_k1'', ''y_k2'']
         = map Some [VInt 100, VInt 1, VInt 9]
    \<and> map (map_of sample_dim0) [''y_step_0'', ''y_step_1'', ''y_step_2'']
         = map Some [VInt 1, VInt 1, VInt 4]
    \<and> (\<exists>out. structure_params sample_dim0 = Inr out
          \<and> map_of out ''x_size'' = Some (VTuple [])
          \<and> map_of out ''x_steps'' = Some (VTuple [])
          \<and> map_of out ''y_size'' = Some (VTuple [])
          \<and> map_of out ''y_steps'' = Some (VTuple [])))"
proof -
  have a1: "wf_dict sample_dim5"
    by (simp add: wf_dict_def sample_dim5_def sample_raw_def)
  have a2: "''random_value'' \<in> fst ` set sample_dim5"
    by (simp add: sample_dim5_def sample_raw_def)
  have a3: "map_of sample_dim5 ''dim'' = Some (VInt 5)"
    by (simp add: sample_dim5_def sample_raw_def)
  have a4: "map (map_of sample_dim5) [''k0'', ''k1'', ''k2''] = map Some [VInt 100, VInt 8, VInt 9]"
    by (simp add: sample_dim5_def sample_raw_def)
  have a5: "map (map_of sample_dim5) [''x_step_0'', ''x_step_1'', ''x_step_2'']
         = map Some [VInt 1, VInt 2, VInt 1]"
    by (simp add: sample_dim5_def sample_raw_def)
  have a6: "map (map_of sample_dim5) [''y_k0'', ''y_k1'', ''y_k2'']
         = map Some [VInt 100, VInt 1, VInt 9]"
    by (simp add: sample_dim5_def sample_raw_def)
  have a7: "map (map_of sample_dim5) [''y_step_0'', ''y_step_1'', ''y_step_2'']
         = map Some [VInt 1, VInt 1, VInt 4]"
    by (simp add: sample_dim5_def sample_raw_def)
  have a8: "(3::int) < 5" by simp
  from structure_params_dim_not_validated[OF a1 a2 a3 a4 a5 a6 a7]
  have a: "\<exists>out. structure_params sample_dim5 = Inr out
          \<and> map_of out ''x_size'' = Some (VTuple [VInt 100, VInt 8, VInt 9])
          \<and> map_of out ''x_steps'' = Some (VTuple [VInt 1, VInt 2, VInt 1])
          \<and> map_of out ''y_size'' = Some (VTuple [VInt 100, VInt 1, VInt 9])
          \<and> map_of out ''y_steps'' = Some (VTuple [VInt 1, VInt 1, VInt 4])"
    by simp
  have b1: "wf_dict sample_dim0"
    by (simp add: wf_dict_def sample_dim0_def sample_raw_def)
  have b2: "''random_value'' \<in> fst ` set sample_dim0"
    by (simp add: sample_dim0_def sample_raw_def)
  have b3: "map_of sample_dim0 ''dim'' = Some (VInt 0)"
    by (simp add: sample_dim0_def sample_raw_def)
  have b4: "map (map_of sample_dim0) [''k0'', ''k1'', ''k2''] = map Some [VInt 100, VInt 8, VInt 9]"
    by (simp add: sample_dim0_def sample_raw_def)
  have b5: "map (map_of sample_dim0) [''x_step_0'', ''x_step_1'', ''x_step_2'']
         = map Some [VInt 1, VInt 2, VInt 1]"
    by (simp add: sample_dim0_def sample_raw_def)
  have b6: "map (map_of sample_dim0) [''y_k0'', ''y_k1'', ''y_k2'']
         = map Some [VInt 100, VInt 1, VInt 9]"
    by (simp add: sample_dim0_def sample_raw_def)
  have b7: "map (map_of sample_dim0) [''y_step_0'', ''y_step_1'', ''y_step_2'']
         = map Some [VInt 1, VInt 1, VInt 4]"
    by (simp add: sample_dim0_def sample_raw_def)
  from structure_params_dim_not_validated[OF b1 b2 b3 b4 b5 b6 b7]
  have b: "\<exists>out. structure_params sample_dim0 = Inr out
          \<and> map_of out ''x_size'' = Some (VTuple [])
          \<and> map_of out ''x_steps'' = Some (VTuple [])
          \<and> map_of out ''y_size'' = Some (VTuple [])
          \<and> map_of out ''y_steps'' = Some (VTuple [])"
    by simp
  from a1 a2 a3 a8 a4 a5 a6 a7 a b1 b2 b3 b4 b5 b6 b7 b show ?thesis by (intro conjI)
qed

section \<open>The tables and the declarations of the constructor\<close>

lemma int_log2_values:
  "int_log2 8 = 3" "int_log2 128 = 7" "int_log2 1024 = 10" "int_log2 16777216 = 24"
  by (simp_all add: int_log2.simps)

lemma scale_names:
  "SMALL \<noteq> MEDIUM" "SMALL \<noteq> LARGE" "MEDIUM \<noteq> LARGE"
  "MEDIUM \<noteq> SMALL" "LARGE \<noteq> SMALL" "LARGE \<noteq> MEDIUM"
  by (simp_all add: SMALL_def MEDIUM_def LARGE_def)

lemma MAX_DIM_SIZE_pow: "MAX_DIM_SIZE = [(SMALL, 2 ^ 7), (MEDIUM, 2 ^ 10), (LARGE, 2 ^ 24)]"
  by (simp add: MAX_DIM_SIZE_def)

lemma POW_TWO_SIZES_eq:
  "POW_TWO_SIZES =
     [(SMALL, map (\<lambda>i. 2 ^ i) [3..<Suc 7]), (MEDIUM, map (\<lambda>i. 2 ^ i) [3..<Suc 10]),
      (LARGE, map (\<lambda>i. 2 ^ i) [3..<Suc 24])]"
  by (simp add: POW_TWO_SIZES_def MAX_DIM_SIZE_def MIN_DIM_SIZE_def range_def int_log2_values)

lemma pow2_between:
  assumes "a \<le> b"
  shows "powers_of_two_between (2 ^ a) (2 ^ b) = set (map (\<lambda>i. 2 ^ i) [a..<Suc b])"
proof -
  have "(2::int) ^ a \<le> 2 ^ j \<longleftrightarrow> a \<le> j" for j
    by (simp add: power_increasing_iff)
  moreover have "(2::int) ^ j \<le> 2 ^ b \<longleftrightarrow> j \<le> b" for j
    by (simp add: power_increasing_iff)
  ultimately show ?thesis
    by (auto simp: powers_of_two_between_def)
qed

lemma card_pow2_between:
  assumes "a \<le> b"
  shows "card (powers_of_two_between (2 ^ a) (2 ^ b)) = length [a..<Suc b]"
proof -
  have "inj_on (\<lambda>i::nat. (2::int) ^ i) (set [a..<Suc b])"
    by (auto simp: inj_on_def)
  then have "distinct (map (\<lambda>i. (2::int) ^ i) [a..<Suc b])"
    by (simp add: distinct_map)
  then have "card (set (map (\<lambda>i. (2::int) ^ i) [a..<Suc b])) = length (map (\<lambda>i. (2::int) ^ i) [a..<Suc b])"
    by (rule distinct_card)
  then show ?thesis
    unfolding pow2_between[OF assms] by (simp only: length_map)
qed


lemma getitem_MAX_DIM_SIZE:
  "getitem MAX_DIM_SIZE SMALL = Inr (2 ^ 7)" "getitem MAX_DIM_SIZE MEDIUM = Inr (2 ^ 10)"
  "getitem MAX_DIM_SIZE LARGE = Inr (2 ^ 24)"
  by (simp_all add: getitem_def MAX_DIM_SIZE_def scale_names)

lemma getitem_POW_TWO_SIZES:
  "getitem POW_TWO_SIZES SMALL = Inr (map (\<lambda>i. 2 ^ i) [3..<Suc 7])"
  "getitem POW_TWO_SIZES MEDIUM = Inr (map (\<lambda>i. 2 ^ i) [3..<Suc 10])"
  "getitem POW_TWO_SIZES LARGE = Inr (map (\<lambda>i. 2 ^ i) [3..<Suc 24])"
  unfolding POW_TWO_SIZES_eq by (simp_all add: getitem_def scale_names del: upt_Suc)

lemma getitem_MIN_ELEMENTS:
  "getitem MIN_ELEMENTS SMALL = Inr 0" "getitem MIN_ELEMENTS MEDIUM = Inr 128"
  "getitem MIN_ELEMENTS LARGE = Inr 4096"
  by (simp_all add: getitem_def MIN_ELEMENTS_def scale_names)

lemma init_scale:
  assumes "scale = SMALL \<or> scale = MEDIUM \<or> scale = LARGE"
  shows "\<exists>b mn. 3 \<le> b \<and> map_of MAX_DIM_SIZE scale = Some (2 ^ b)
     \<and> map_of MIN_ELEMENTS scale = Some mn
     \<and> BinaryOpFuzzer_init sd dt cu rg scale =
         Inr \<lparr>parameters = space (2 ^ b) (map (\<lambda>i. 2 ^ i) [3..<Suc b]),
              tensors = [tensor_x dt cu rg mn, tensor_y dt cu rg], seed = sd\<rparr>"
proof -
  have s: "?thesis" if "scale = SMALL"
    unfolding that BinaryOpFuzzer_init_def getitem_MAX_DIM_SIZE getitem_POW_TWO_SIZES
      getitem_MIN_ELEMENTS space_def
    by (intro exI[of _ 7] exI[of _ 0]) (simp add: MAX_DIM_SIZE_def MIN_ELEMENTS_def del: upt_Suc)
  have m: "?thesis" if "scale = MEDIUM"
    unfolding that BinaryOpFuzzer_init_def getitem_MAX_DIM_SIZE getitem_POW_TWO_SIZES
      getitem_MIN_ELEMENTS space_def
    by (intro exI[of _ 10] exI[of _ 128]) (simp add: MAX_DIM_SIZE_def MIN_ELEMENTS_def scale_names del: upt_Suc)
  have l: "?thesis" if "scale = LARGE"
    unfolding that BinaryOpFuzzer_init_def getitem_MAX_DIM_SIZE getitem_POW_TWO_SIZES
      getitem_MIN_ELEMENTS space_def
    by (intro exI[of _ 24] exI[of _ 4096]) (simp add: MAX_DIM_SIZE_def MIN_ELEMENTS_def scale_names del: upt_Suc)
  from assms s m l show ?thesis by blast
qed

lemma axis_cases: "i < 3 \<Longrightarrow> i = 0 \<or> i = 1 \<or> i = (2::nat)"
  by arith

lemma str_digit: "str 0 = ''0''" "str 1 = ''1''" "str (Suc 0) = ''1''" "str 2 = ''2''"
  by (simp_all add: str.simps)

lemma range_3: "range 0 3 = [0, 1, 2]"
  by (simp add: range_def upt_rec)

lemma k_pow2_named:
  assumes "i < 3"
  shows "filter (\<lambda>p. name p = ''k_pow2_'' @ str i) (declared \<lparr>parameters = space mx pw, tensors = ts, seed = sd\<rparr>)
     = [\<lparr>name = ''k_pow2_'' @ str i, minval = None, maxval = None,
         distribution = Weighted (map (\<lambda>size. (Value size, 1 / of_nat (length pw))) pw),
         strict = None\<rparr>]"
  using axis_cases[OF assms]
  by (elim disjE)
     (simp_all add: declared_def space_def dim_param_def k_any_params_def k_pow2_params_def
        k_params_def y_k_params_def step_params_def random_value_param_def range_3 str_digit)

lemma y_k_named:
  assumes "i < 3"
  shows "filter (\<lambda>p. name p = ''y_k'' @ str i) (declared \<lparr>parameters = space mx pw, tensors = ts, seed = sd\<rparr>)
     = [\<lparr>name = ''y_k'' @ str i, minval = None, maxval = None,
         distribution = Weighted [(ParameterAlias (''k'' @ str i), 0.8), (Value 1, 0.2)],
         strict = Some True\<rparr>]"
  using axis_cases[OF assms]
  by (elim disjE)
     (simp_all add: declared_def space_def dim_param_def k_any_params_def k_pow2_params_def
        k_params_def y_k_params_def step_params_def random_value_param_def range_3 str_digit)


lemma uniform_weights:
  assumes "pw \<noteq> []" and "distinct pw"
  shows "distinct (map fst (map (\<lambda>size. (Value size, w)) pw))"
    and "fst ` set (map (\<lambda>size. (Value size, w)) pw) = Value ` set pw"
    and "snd ` set (map (\<lambda>size. (Value size, w)) pw) = {w}"
proof -
  show "distinct (map fst (map (\<lambda>size. (Value size, w)) pw))"
    using assms(2) by (simp add: distinct_map inj_on_def comp_def)
  show "fst ` set (map (\<lambda>size. (Value size, w)) pw) = Value ` set pw"
    by (simp add: image_image)
  from assms(1) have "set pw \<noteq> {}" by simp
  then show "snd ` set (map (\<lambda>size. (Value size, w)) pw) = {w}"
    by (simp add: image_image image_constant_conv)
qed

lemma pow2_list:
  "(map (\<lambda>i. (2::int) ^ i) [3..<Suc b]) \<noteq> [] \<longleftrightarrow> 3 \<le> b"
  "distinct (map (\<lambda>i. (2::int) ^ i) [3..<Suc b])"
  by (auto simp: distinct_map inj_on_def simp del: upt_Suc)

section \<open>Claims about the declared parameter space\<close>

text \<open>
  Claim C2, as stated: the tensor request for \<open>y\<close> specifies the same maximum element count
  as \<open>x\<close>, \<open>32 * 1024^2\<close>. It fails: the call that declares \<open>y\<close> passes no
  \<^verbatim>\<open>max_elements\<close> at all, while the call that declares \<open>x\<close> does.
\<close>

theorem tensor_y_max_elements_counterexample:
  "map_sum id (\<lambda>fz. map max_elements (tensor_named fz ''y''))
     (BinaryOpFuzzer_init 0 float32 False False LARGE) = Inr [None]
   \<and> map_sum id (\<lambda>fz. map max_elements (tensor_named fz ''x''))
     (BinaryOpFuzzer_init 0 float32 False False LARGE) = Inr [Some (32 * 1024 ^ 2)]"
  by code_simp

text \<open>
  Claim C2, amended: for each scale, the tensor request for \<open>x\<close> specifies the element
  count bounds \<open>MIN_ELEMENTS[scale]\<close> and \<open>32 * 1024^2\<close>, with \<open>MIN_ELEMENTS\<close> being 0, 128
  and 4096 for small, medium and large, and a maximum allocation of \<open>2 * 1024^3\<close> bytes; the
  tensor request for \<open>y\<close> passes neither a minimum nor a maximum element count, and the same
  maximum allocation of \<open>2 * 1024^3\<close> bytes.
\<close>

theorem tensor_budgets:
  assumes "scale = SMALL \<or> scale = MEDIUM \<or> scale = LARGE"
  shows "MIN_ELEMENTS = [(SMALL, 0), (MEDIUM, 128), (LARGE, 4096)]
     \<and> (\<exists>fz mn tx ty.
           BinaryOpFuzzer_init sd dt cu rg scale = Inr fz
         \<and> map_of MIN_ELEMENTS scale = Some mn
         \<and> tensor_named fz ''x'' = [tx]
         \<and> min_elements tx = Some mn
         \<and> max_elements tx = Some (32 * 1024 ^ 2)
         \<and> max_allocation_bytes tx = Some (2 * 1024 ^ 3)
         \<and> tensor_named fz ''y'' = [ty]
         \<and> min_elements ty = None
         \<and> max_elements ty = None
         \<and> max_allocation_bytes ty = Some (2 * 1024 ^ 3))"
proof -
  from init_scale[OF assms, of sd dt cu rg] obtain b mn where
    mn: "map_of MIN_ELEMENTS scale = Some mn"
    and init: "BinaryOpFuzzer_init sd dt cu rg scale =
         Inr \<lparr>parameters = space (2 ^ b) (map (\<lambda>i. 2 ^ i) [3..<Suc b]),
              tensors = [tensor_x dt cu rg mn, tensor_y dt cu rg], seed = sd\<rparr>"
    by blast
  have x: "tensor_named \<lparr>parameters = ps, tensors = [tensor_x dt cu rg mn, tensor_y dt cu rg], seed = sd\<rparr> ''x''
            = [tensor_x dt cu rg mn]" for ps
    by (simp add: tensor_named_def tensor_x_def tensor_y_def)
  have y: "tensor_named \<lparr>parameters = ps, tensors = [tensor_x dt cu rg mn, tensor_y dt cu rg], seed = sd\<rparr> ''y''
            = [tensor_y dt cu rg]" for ps
    by (simp add: tensor_named_def tensor_x_def tensor_y_def)
  have fx: "min_elements (tensor_x dt cu rg mn) = Some mn"
    "max_elements (tensor_x dt cu rg mn) = Some (32 * 1024 ^ 2)"
    "max_allocation_bytes (tensor_x dt cu rg mn) = Some (2 * 1024 ^ 3)"
    by (simp_all add: tensor_x_def)
  have fy: "min_elements (tensor_y dt cu rg) = None"
    "max_elements (tensor_y dt cu rg) = None"
    "max_allocation_bytes (tensor_y dt cu rg) = Some (2 * 1024 ^ 3)"
    by (simp_all add: tensor_y_def)
  have "\<exists>fz mn tx ty.
           BinaryOpFuzzer_init sd dt cu rg scale = Inr fz
         \<and> map_of MIN_ELEMENTS scale = Some mn
         \<and> tensor_named fz ''x'' = [tx]
         \<and> min_elements tx = Some mn
         \<and> max_elements tx = Some (32 * 1024 ^ 2)
         \<and> max_allocation_bytes tx = Some (2 * 1024 ^ 3)
         \<and> tensor_named fz ''y'' = [ty]
         \<and> min_elements ty = None
         \<and> max_elements ty = None
         \<and> max_allocation_bytes ty = Some (2 * 1024 ^ 3)"
    using init mn x y fx fy
    by (intro exI[of _ "\<lparr>parameters = space (2 ^ b) (map (\<lambda>i. 2 ^ i) [3..<Suc b]),
              tensors = [tensor_x dt cu rg mn, tensor_y dt cu rg], seed = sd\<rparr>"]
          exI[of _ mn] exI[of _ "tensor_x dt cu rg mn"] exI[of _ "tensor_y dt cu rg"] conjI)
  moreover have "MIN_ELEMENTS = [(SMALL, 0), (MEDIUM, 128), (LARGE, 4096)]"
    by (simp add: MIN_ELEMENTS_def)
  ultimately show ?thesis by (intro conjI)
qed

theorem tensor_budgets_witness:
  "(LARGE = SMALL \<or> LARGE = MEDIUM \<or> LARGE = LARGE)
   \<and> (\<exists>fz mn tx ty.
           BinaryOpFuzzer_init 0 float32 False False LARGE = Inr fz
         \<and> map_of MIN_ELEMENTS LARGE = Some mn
         \<and> tensor_named fz ''x'' = [tx]
         \<and> min_elements tx = Some mn
         \<and> max_elements tx = Some (32 * 1024 ^ 2)
         \<and> max_allocation_bytes tx = Some (2 * 1024 ^ 3)
         \<and> tensor_named fz ''y'' = [ty]
         \<and> min_elements ty = None
         \<and> max_elements ty = None
         \<and> max_allocation_bytes ty = Some (2 * 1024 ^ 3))
   \<and> map_of MIN_ELEMENTS LARGE = Some 4096"
proof -
  have 1: "LARGE = SMALL \<or> LARGE = MEDIUM \<or> LARGE = LARGE" by simp
  have 2: "map_of MIN_ELEMENTS LARGE = Some 4096"
    by (simp add: MIN_ELEMENTS_def scale_names)
  note tensor_budgets[OF 1, of 0 float32 False False, THEN conjunct2]
  with 1 2 show ?thesis by (intro conjI)
qed


text \<open>
  Claim C8: for each scale and each axis index \<open>i\<close> below 3, the declaration of
  \<open>k_pow2_i\<close> is a weighted discrete distribution whose outcomes are, each once, exactly
  the powers of two between \<open>MIN_DIM_SIZE = 8\<close> and \<open>MAX_DIM_SIZE[scale]\<close> inclusive
  (128, 1024 and \<open>16 * 1024^2\<close> for small, medium and large), every outcome with the weight
  one over the number of these powers.
\<close>

theorem k_pow2_distribution:
  assumes "scale = SMALL \<or> scale = MEDIUM \<or> scale = LARGE" and "i < 3"
  shows "MIN_DIM_SIZE = 8
     \<and> MAX_DIM_SIZE = [(SMALL, 128), (MEDIUM, 1024), (LARGE, 16 * 1024 ^ 2)]
     \<and> (\<exists>fz max_size ws.
           BinaryOpFuzzer_init sd dt cu rg scale = Inr fz
         \<and> map_of MAX_DIM_SIZE scale = Some max_size
         \<and> parameter_named fz (''k_pow2_'' @ str i) =
             [\<lparr>name = ''k_pow2_'' @ str i, minval = None, maxval = None,
               distribution = Weighted ws, strict = None\<rparr>]
         \<and> distinct (map fst ws)
         \<and> fst ` set ws = Value ` powers_of_two_between MIN_DIM_SIZE max_size
         \<and> snd ` set ws = {1 / of_nat (card (powers_of_two_between MIN_DIM_SIZE max_size))})"
proof -
  from init_scale[OF assms(1), of sd dt cu rg] obtain b mn where
    b: "3 \<le> b" and mx: "map_of MAX_DIM_SIZE scale = Some (2 ^ b)"
    and init: "BinaryOpFuzzer_init sd dt cu rg scale =
         Inr \<lparr>parameters = space (2 ^ b) (map (\<lambda>i. 2 ^ i) [3..<Suc b]),
              tensors = [tensor_x dt cu rg mn, tensor_y dt cu rg], seed = sd\<rparr>"
    by blast
  define pw :: "int list" where "pw = map (\<lambda>i. 2 ^ i) [3..<Suc b]"
  define w :: rat where "w = 1 / of_nat (length pw)"
  define ws where "ws = map (\<lambda>size. (Value size, w)) pw"
  have min: "MIN_DIM_SIZE = 2 ^ 3" by (simp add: MIN_DIM_SIZE_def)
  have set_pw: "set pw = powers_of_two_between MIN_DIM_SIZE (2 ^ b)"
    unfolding pw_def min by (rule pow2_between[OF b, symmetric])
  have len: "length pw = card (powers_of_two_between MIN_DIM_SIZE (2 ^ b))"
    unfolding pw_def min card_pow2_between[OF b] by (simp only: length_map)
  have ne: "pw \<noteq> []" "distinct pw"
    using b unfolding pw_def by (simp_all only: pow2_list)
  have named: "parameter_named
      \<lparr>parameters = space (2 ^ b) pw, tensors = [tensor_x dt cu rg mn, tensor_y dt cu rg], seed = sd\<rparr>
      (''k_pow2_'' @ str i) =
      [\<lparr>name = ''k_pow2_'' @ str i, minval = None, maxval = None,
        distribution = Weighted ws, strict = None\<rparr>]"
    unfolding parameter_named_def ws_def w_def by (rule k_pow2_named[OF assms(2)])
  have 1: "distinct (map fst ws)"
    and 2: "fst ` set ws = Value ` powers_of_two_between MIN_DIM_SIZE (2 ^ b)"
    and 3: "snd ` set ws = {1 / of_nat (card (powers_of_two_between MIN_DIM_SIZE (2 ^ b)))}"
    unfolding ws_def using uniform_weights[OF ne, of w] by (simp_all only: set_pw w_def len)
  have "\<exists>fz max_size ws.
           BinaryOpFuzzer_init sd dt cu rg scale = Inr fz
         \<and> map_of MAX_DIM_SIZE scale = Some max_size
         \<and> parameter_named fz (''k_pow2_'' @ str i) =
             [\<lparr>name = ''k_pow2_'' @ str i, minval = None, maxval = None,
               distribution = Weighted ws, strict = None\<rparr>]
         \<and> distinct (map fst ws)
         \<and> fst ` set ws = Value ` powers_of_two_between MIN_DIM_SIZE max_size
         \<and> snd ` set ws = {1 / of_nat (card (powers_of_two_between MIN_DIM_SIZE max_size))}"
    using init[folded pw_def] mx named 1 2 3 by blast
  moreover have "MIN_DIM_SIZE = 8" by (simp add: MIN_DIM_SIZE_def)
  moreover have "MAX_DIM_SIZE = [(SMALL, 128), (MEDIUM, 1024), (LARGE, 16 * 1024 ^ 2)]"
    by (simp add: MAX_DIM_SIZE_def)
  ultimately show ?thesis by (intro conjI)
qed

theorem k_pow2_distribution_witness:
  "(SMALL = SMALL \<or> SMALL = MEDIUM \<or> SMALL = LARGE) \<and> (1::nat) < 3
   \<and> (\<exists>fz max_size ws.
           BinaryOpFuzzer_init 0 float32 False False SMALL = Inr fz
         \<and> map_of MAX_DIM_SIZE SMALL = Some max_size
         \<and> parameter_named fz (''k_pow2_'' @ str 1) =
             [\<lparr>name = ''k_pow2_'' @ str 1, minval = None, maxval = None,
               distribution = Weighted ws, strict = None\<rparr>]
         \<and> distinct (map fst ws)
         \<and> fst ` set ws = Value ` powers_of_two_between MIN_DIM_SIZE max_size
         \<and> snd ` set ws = {1 / of_nat (card (powers_of_two_between MIN_DIM_SIZE max_size))})
   \<and> map_sum id (\<lambda>fz. map distribution (parameter_named fz ''k_pow2_1''))
        (BinaryOpFuzzer_init 0 float32 False False SMALL)
      = Inr [Weighted [(Value 8, 1 / 5), (Value 16, 1 / 5), (Value 32, 1 / 5),
                       (Value 64, 1 / 5), (Value 128, 1 / 5)]]"
proof -
  have 1: "SMALL = SMALL \<or> SMALL = MEDIUM \<or> SMALL = LARGE" by simp
  have 2: "(1::nat) < 3" by simp
  have 3: "map_sum id (\<lambda>fz. map distribution (parameter_named fz ''k_pow2_1''))
        (BinaryOpFuzzer_init 0 float32 False False SMALL)
      = Inr [Weighted [(Value 8, 1 / 5), (Value 16, 1 / 5), (Value 32, 1 / 5),
                       (Value 64, 1 / 5), (Value 128, 1 / 5)]]"
    by code_simp
  note k_pow2_distribution[OF 1 2, of 0 float32 False False, THEN conjunct2, THEN conjunct2]
  with 1 2 3 show ?thesis by (intro conjI)
qed


text \<open>
  Claim C9: for each scale and each axis index \<open>i\<close> below 3, the declaration of \<open>y_k_i\<close> is
  strict and is a weighted discrete distribution with exactly two outcomes, the alias of
  \<open>k_i\<close> with weight 0.8 and the value 1 with weight 0.2.
\<close>

theorem y_k_distribution:
  assumes "scale = SMALL \<or> scale = MEDIUM \<or> scale = LARGE" and "i < 3"
  shows "\<exists>fz. BinaryOpFuzzer_init sd dt cu rg scale = Inr fz
     \<and> parameter_named fz (''y_k'' @ str i) =
         [\<lparr>name = ''y_k'' @ str i, minval = None, maxval = None,
           distribution = Weighted [(ParameterAlias (''k'' @ str i), 0.8), (Value 1, 0.2)],
           strict = Some True\<rparr>]"
proof -
  from init_scale[OF assms(1), of sd dt cu rg] obtain b mn where
    init: "BinaryOpFuzzer_init sd dt cu rg scale =
         Inr \<lparr>parameters = space (2 ^ b) (map (\<lambda>i. 2 ^ i) [3..<Suc b]),
              tensors = [tensor_x dt cu rg mn, tensor_y dt cu rg], seed = sd\<rparr>"
    by blast
  have named: "parameter_named
      \<lparr>parameters = space (2 ^ b) (map (\<lambda>i. 2 ^ i) [3..<Suc b]),
       tensors = [tensor_x dt cu rg mn, tensor_y dt cu rg], seed = sd\<rparr>
      (''y_k'' @ str i) =
      [\<lparr>name = ''y_k'' @ str i, minval = None, maxval = None,
        distribution = Weighted [(ParameterAlias (''k'' @ str i), 0.8), (Value 1, 0.2)],
        strict = Some True\<rparr>]"
    unfolding parameter_named_def by (rule y_k_named[OF assms(2)])
  from init named show ?thesis
    by (intro exI[of _ "\<lparr>parameters = space (2 ^ b) (map (\<lambda>i. 2 ^ i) [3..<Suc b]),
       tensors = [tensor_x dt cu rg mn, tensor_y dt cu rg], seed = sd\<rparr>"] conjI)
qed

theorem y_k_distribution_witness:
  "(MEDIUM = SMALL \<or> MEDIUM = MEDIUM \<or> MEDIUM = LARGE) \<and> (2::nat) < 3
   \<and> (\<exists>fz. BinaryOpFuzzer_init 7 float32 False False MEDIUM = Inr fz
     \<and> parameter_named fz (''y_k'' @ str 2) =
         [\<lparr>name = ''y_k'' @ str 2, minval = None, maxval = None,
           distribution = Weighted [(ParameterAlias (''k'' @ str 2), 0.8), (Value 1, 0.2)],
           strict = Some True\<rparr>])
   \<and> ''y_k'' @ str 2 = ''y_k2'' \<and> ''k'' @ str 2 = ''k2''"
proof -
  have 1: "MEDIUM = SMALL \<or> MEDIUM = MEDIUM \<or> MEDIUM = LARGE" by simp
  have 2: "(2::nat) < 3" by simp
  have 3: "''y_k'' @ str 2 = ''y_k2''" "''k'' @ str 2 = ''k2''"
    by (simp_all add: str.simps)
  from y_k_distribution[OF 1 2, of 7 float32 False False] 1 2 3
  show ?thesis by (intro conjI)
qed

end
